theory Spec2Isabelle
  imports Complex_Main
begin

section \<open>Python strings and numbers used by the CDE API session\<close>

text \<open>
  A Python \<open>str\<close> is modelled as a \<open>string\<close> whose characters stand for the code
  points 0 to 255. The classifications below are the ones of Python 3 on that range.
\<close>

definition py_isspace :: "char \<Rightarrow> bool" where
  "py_isspace c = ((of_char c :: nat) \<in> {9, 10, 11, 12, 13, 28, 29, 30, 31, 32, 133, 160})"

definition lstrip :: "string \<Rightarrow> string" where
  "lstrip s = dropWhile py_isspace s"

definition rstrip :: "string \<Rightarrow> string" where
  "rstrip s = rev (dropWhile py_isspace (rev s))"

definition strip :: "string \<Rightarrow> string" where
  "strip s = rstrip (lstrip s)"

definition startswith :: "string \<Rightarrow> string \<Rightarrow> bool" where
  "startswith s p = (take (length p) s = p)"

definition endswith :: "string \<Rightarrow> string \<Rightarrow> bool" where
  "endswith s p = (length p \<le> length s \<and> drop (length s - length p) s = p)"

text \<open>\<open>s.split(c)\<close> for a one-character separator: never empty, one fragment more than
  there are separators.\<close>

fun split_on :: "char \<Rightarrow> string \<Rightarrow> string list" where
  "split_on c [] = [[]]"
| "split_on c (x # xs) =
     (if x = c then [] # split_on c xs
      else (case split_on c xs of
              [] \<Rightarrow> [[x]]
            | w # ws \<Rightarrow> (x # w) # ws))"

definition is_digit :: "char \<Rightarrow> bool" where
  "is_digit c = (48 \<le> (of_char c :: nat) \<and> (of_char c :: nat) \<le> 57)"

definition isnumeric_char :: "char \<Rightarrow> bool" where
  "isnumeric_char c = (is_digit c \<or> (of_char c :: nat) \<in> {178, 179, 185, 188, 189, 190})"

text \<open>\<open>str.isnumeric\<close>: at least one character and every character numeric.\<close>

definition isnumeric :: "string \<Rightarrow> bool" where
  "isnumeric s = (s \<noteq> [] \<and> list_all isnumeric_char s)"

definition ascii_lower :: "char \<Rightarrow> char" where
  "ascii_lower c =
     (if 65 \<le> (of_char c :: nat) \<and> (of_char c :: nat) \<le> 90
      then char_of ((of_char c :: nat) + 32) else c)"

definition digit_val :: "char \<Rightarrow> nat" where
  "digit_val c = of_char c - 48"

definition nat_of_digits :: "string \<Rightarrow> nat" where
  "nat_of_digits ds = foldl (\<lambda>a c. 10 * a + digit_val c) 0 ds"

fun digits_of :: "nat \<Rightarrow> string" where
  "digits_of n =
     (if n < 10 then [char_of (48 + n)]
      else digits_of (n div 10) @ [char_of (48 + n mod 10)])"

declare digits_of.simps [simp del]

text \<open>\<open>s.zfill(w)\<close> on a string of digits.\<close>

definition zfill :: "nat \<Rightarrow> string \<Rightarrow> string" where
  "zfill w s = replicate (w - length s) CHR ''0'' @ s"

text \<open>
  A Python \<open>float\<close>. \<open>Dbl neg q\<close> is the double nearest to the rational magnitude \<open>q\<close>
  (ties to even, an overflow giving infinity), with sign bit \<open>neg\<close>: \<open>Dbl False 1\<close> is
  \<open>1.0\<close>, \<open>Dbl False 0\<close> is \<open>0.0\<close> and \<open>Dbl True 0\<close> is \<open>-0.0\<close>. The program builds
  floats and hands them on; it never computes with them.
\<close>

datatype pyfloat = Dbl bool rat | FInf bool | FNaN

text \<open>A decoded JSON object: its keys with the text of their values.\<close>

type_synonym payload = "(string \<times> string) list"

text \<open>
  The exceptions. \<open>TransportError\<close> is whatever \<open>requests\<close> raises when a call does
  not complete; \<open>DatabaseError p\<close> is the dbt database error whose message is
  \<open>"Error while executing query: "\<close> followed by \<open>repr\<close> of the status payload \<open>p\<close>.
\<close>

datatype error =
    ValueError
  | IndexError
  | KeyError
  | TypeError
  | OverflowError
  | AttributeError
  | TransportError
  | DatabaseError payload
  | RPCTimeoutException nat

definition split_sign :: "string \<Rightarrow> bool \<times> string" where
  "split_sign s =
     (case s of
        [] \<Rightarrow> (False, [])
      | c # r \<Rightarrow> if c = CHR ''-'' then (True, r)
                 else if c = CHR ''+'' then (False, r)
                 else (False, s))"

text \<open>An underscore in a numeric literal must stand between two digits.\<close>

fun underscores_ok :: "char option \<Rightarrow> string \<Rightarrow> bool" where
  "underscores_ok prev [] = (prev \<noteq> Some CHR ''_'')"
| "underscores_ok prev (c # cs) =
     (if c = CHR ''_''
      then (case prev of None \<Rightarrow> False | Some p \<Rightarrow> is_digit p \<and> underscores_ok (Some c) cs)
      else if prev = Some CHR ''_'' then is_digit c \<and> underscores_ok (Some c) cs
      else underscores_ok (Some c) cs)"

definition scale10 :: "nat \<Rightarrow> int \<Rightarrow> rat" where
  "scale10 n k = (if 0 \<le> k then of_nat n * 10 ^ nat k else of_nat n / 10 ^ nat (- k))"

definition parse_decimal :: "string \<Rightarrow> rat option" where
  "parse_decimal s =
     (let ip = takeWhile is_digit s;
          r1 = dropWhile is_digit s;
          fp = (case r1 of [] \<Rightarrow> [] | c # t \<Rightarrow> if c = CHR ''.'' then takeWhile is_digit t else []);
          r2 = (case r1 of [] \<Rightarrow> [] | c # t \<Rightarrow> if c = CHR ''.'' then dropWhile is_digit t else r1);
          m = nat_of_digits (ip @ fp)
      in if ip = [] \<and> fp = [] then None
         else (case r2 of
                 [] \<Rightarrow> Some (scale10 m (- int (length fp)))
               | e # t \<Rightarrow>
                   if e = CHR ''e'' \<or> e = CHR ''E''
                   then (let ds = snd (split_sign t);
                             ex = (if fst (split_sign t) then - int (nat_of_digits ds)
                                   else int (nat_of_digits ds))
                         in if ds \<noteq> [] \<and> list_all is_digit ds
                            then Some (scale10 m (ex - int (length fp)))
                            else None)
                   else None))"

text \<open>
  \<open>float(s)\<close> on a \<open>str\<close>: \<open>None\<close> stands for the \<open>ValueError\<close> it raises. Before it
  parses, \<open>float\<close> replaces the non-ASCII spaces (here U+0085 and U+00A0) by blanks and
  strips the ASCII whitespace; unlike \<open>str.strip\<close> it leaves U+001C to U+001F in
  place, and the text is then rejected.
\<close>

definition float_isspace :: "char \<Rightarrow> bool" where
  "float_isspace c = ((of_char c :: nat) \<in> {9, 10, 11, 12, 13, 32, 133, 160})"

definition float_strip :: "string \<Rightarrow> string" where
  "float_strip s = rev (dropWhile float_isspace (rev (dropWhile float_isspace s)))"

definition float_of_str :: "string \<Rightarrow> pyfloat option" where
  "float_of_str s =
     (let t = float_strip s in
      if \<not> underscores_ok None t then None
      else (let u = filter (\<lambda>c. c \<noteq> CHR ''_'') t;
                neg = fst (split_sign u);
                v = snd (split_sign u);
                low = map ascii_lower v
            in if low = ''inf'' \<or> low = ''infinity'' then Some (FInf neg)
               else if low = ''nan'' then Some FNaN
               else map_option (Dbl neg) (parse_decimal v)))"

text \<open>\<open>float(n)\<close> on an \<open>int\<close>: \<open>OverflowError\<close> from the first magnitude that rounds to
  \<open>2 ^ 1024\<close>.\<close>

definition float_of_int :: "int \<Rightarrow> error + pyfloat" where
  "float_of_int n =
     (if 2 ^ 1024 - 2 ^ 970 \<le> \<bar>n\<bar> then Inl OverflowError
      else Inr (Dbl (n < 0) (of_int \<bar>n\<bar>)))"

section \<open>Output parser\<close>

text \<open>A schema entry is the dictionary \<open>{"name": _, "type": _, "nullable": _}\<close>.\<close>

record field =
  name :: string
  type :: string
  nullable :: bool

text \<open>A cell of a row: text as parsed, or the value type inference converted it to.\<close>

datatype pyval = Str string | Num pyfloat | Boolean bool

type_synonym row = "pyval list"

subsection \<open>\<open>CDEApiConnection.extract_datatypes\<close>\<close>

definition is_number :: "string \<Rightarrow> bool" where
  "is_number x = isnumeric x"

definition is_logical :: "string \<Rightarrow> bool" where
  "is_logical x = (x = ''true'' \<or> x = ''false'' \<or> x = ''True'' \<or> x = ''False'')"

definition is_true :: "string \<Rightarrow> bool" where
  "is_true x = (x = ''true'' \<or> x = ''True'')"

definition convert_number :: "string \<Rightarrow> error + pyval" where
  "convert_number x = (case float_of_str x of None \<Rightarrow> Inl ValueError | Some f \<Rightarrow> Inr (Num f))"

definition convert_logical :: "string \<Rightarrow> error + pyval" where
  "convert_logical x = Inr (Boolean (is_true x))"

definition convert_map :: "string \<rightharpoonup> (string \<Rightarrow> error + pyval)" where
  "convert_map =
     [''number'' \<mapsto> convert_number,
      ''boolean'' \<mapsto> convert_logical,
      ''string'' \<mapsto> (\<lambda>x. Inr (Str x))]"

definition get_type :: "string \<Rightarrow> string" where
  "get_type col_data =
     (if is_number col_data then ''number''
      else if is_logical col_data then ''boolean''
      else ''string'')"

text \<open>
  \<open>convert_type\<close> overwrites the cells of one row in place, from index 0 upwards. The
  result is the row as the loop leaves it and the exception that stopped it, if any:
  \<open>IndexError\<close> when the row is longer than \<open>col_types\<close>, \<open>KeyError\<close> for a type
  outside \<open>convert_map\<close>, or the error of the conversion. Cells from the failing one on
  keep their text.
\<close>

fun convert_type :: "string list \<Rightarrow> string list \<Rightarrow> row \<times> error option" where
  "convert_type [] col_types = ([], None)"
| "convert_type (col # cols) [] = (map Str (col # cols), Some IndexError)"
| "convert_type (col # cols) (col_type # col_types) =
     (case convert_map col_type of
        None \<Rightarrow> (map Str (col # cols), Some KeyError)
      | Some conv \<Rightarrow>
          (case conv col of
             Inl e \<Rightarrow> (map Str (col # cols), Some e)
           | Inr v \<Rightarrow> (v # fst (convert_type cols col_types),
                       snd (convert_type cols col_types))))"

text \<open>\<open>for row in rows: convert_type(row, col_types)\<close>: the rows after the failing one
  are not reached.\<close>

fun convert_rows :: "string list list \<Rightarrow> string list \<Rightarrow> row list \<times> error option" where
  "convert_rows [] col_types = ([], None)"
| "convert_rows (r # rs) col_types =
     (case snd (convert_type r col_types) of
        Some e \<Rightarrow> (fst (convert_type r col_types) # map (map Str) rs, Some e)
      | None \<Rightarrow> (fst (convert_type r col_types) # fst (convert_rows rs col_types),
                 snd (convert_rows rs col_types)))"

definition set_types :: "field list \<Rightarrow> string list \<Rightarrow> field list" where
  "set_types schema col_types = map (\<lambda>(f, t). f\<lparr>type := t\<rparr>) (zip schema col_types)"

text \<open>
  The first component is the list object \<open>rows\<close> after the call (it is changed in
  place), the second the exception raised or the schema returned; the rows returned
  are that same object.
\<close>

definition extract_datatypes :: "field list \<Rightarrow> string list list \<Rightarrow> row list \<times> (error + field list)" where
  "extract_datatypes schema rows =
     (case rows of
        [] \<Rightarrow> ([], Inl IndexError)
      | first_row # _ \<Rightarrow>
          if length schema \<noteq> length first_row then (map (map Str) rows, Inr schema)
          else (let col_types = map get_type first_row in
                case snd (convert_rows rows col_types) of
                  Some e \<Rightarrow> (fst (convert_rows rows col_types), Inl e)
                | None \<Rightarrow> (fst (convert_rows rows col_types), Inr (set_types schema col_types))))"

subsection \<open>\<open>CDEApiConnection.parse_query_result\<close>\<close>

definition is_separator :: "string \<Rightarrow> bool" where
  "is_separator line = startswith (strip line) ''+-''"

text \<open>The first loop: \<open>line_number\<close> counts the lines up to and including the first
  separator line, or all of them.\<close>

fun find_separator :: "string list \<Rightarrow> nat \<Rightarrow> nat" where
  "find_separator [] line_number = line_number"
| "find_separator (line # res_lines) line_number =
     (if is_separator line then Suc line_number
      else find_separator res_lines (Suc line_number))"

definition cells :: "string \<Rightarrow> string list" where
  "cells line = map strip (filter (\<lambda>x. strip x \<noteq> []) (split_on CHR ''|'' line))"

fun data_rows :: "string list \<Rightarrow> string list list" where
  "data_rows [] = []"
| "data_rows (data_line # ls) =
     (if startswith (strip data_line) ''+-'' then []
      else cells (strip data_line) # data_rows ls)"

definition header_schema :: "string \<Rightarrow> field list" where
  "header_schema line =
     map (\<lambda>x. \<lparr>name = x, type = ''string'', nullable = False\<rparr>) (cells line)"

definition parse_query_result :: "string list \<Rightarrow> field list \<times> row list" where
  "parse_query_result res_lines =
     (let line_number = find_separator res_lines 0 in
      if line_number = length res_lines then ([], [])
      else (let schema = header_schema (res_lines ! line_number) in
            if length schema = 0 then (schema, [])
            else (let rows = data_rows (drop (line_number + 2) res_lines) in
                  if length rows > 0
                  then (case snd (extract_datatypes schema rows) of
                          Inl e \<Rightarrow> (schema, fst (extract_datatypes schema rows))
                        | Inr schema' \<Rightarrow> (schema', fst (extract_datatypes schema rows)))
                  else (schema, []))))"

section \<open>Job client and orchestration\<close>

definition DEFAULT_POLL_WAIT :: nat where
  "DEFAULT_POLL_WAIT = 30"

definition DEFAULT_LOG_WAIT :: nat where
  "DEFAULT_LOG_WAIT = 40"

definition DEFAULT_CDE_JOB_TIMEOUT :: nat where
  "DEFAULT_CDE_JOB_TIMEOUT = 900"

text \<open>What leaves the process: the requests sent to the service, and the sleeps.\<close>

datatype call =
    CreateResource string string
  | UploadResource string string string
  | SubmitJob string string string string
  | RunJob string
  | GetJobRunStatus string
  | GetLogs string string
  | DeleteJob string
  | DeleteResource string
  | Sleep nat

text \<open>
  The service and the clock, as one execution meets them. A reply is \<open>Inl e\<close> when the
  call raises \<open>e\<close>, otherwise what the program reads from the response: nothing but
  the HTTP status code (which it ignores) for the calls whose response it drops, the
  decoded JSON body for \<open>run_job\<close> and for the \<open>i\<close>-th status request, the text of the
  body for the logs.
\<close>

record remote =
  time_ms_job :: nat
  random_int :: nat
  time_ms_sql :: nat
  time_ms_py :: nat
  create_resource_reply :: "error + nat"
  upload_resource_reply :: "string \<Rightarrow> error + nat"
  submit_job_reply :: "error + nat"
  run_job_reply :: "error + payload"
  job_run_status_reply :: "nat \<Rightarrow> error + payload"
  logs_reply :: "error + string"
  delete_job_reply :: "error + nat"
  delete_resource_reply :: "error + nat"

text \<open>
  The cursor attribute \<open>_rows\<close>: not assigned yet (the constructor in force does not
  assign it), \<open>None\<close> (after \<open>close\<close>), or a reference to a list object.
\<close>

type_synonym addr = nat

datatype rows_ref = Unset | IsNone | ListAt addr

text \<open>
  The state of one session: the cursor's attributes, the store of list objects that
  hold result rows (a list is mutable and may be shared, so it lives at an address),
  and the trace of calls made so far, oldest first.
\<close>

record session =
  has_cursor :: bool
  cur_rows :: rows_ref
  cur_schema :: "field list option"
  heap :: "addr \<Rightarrow> row list"
  next_addr :: addr
  trace :: "call list"

text \<open>Sequencing of steps that may raise: the first exception ends the sequence.\<close>

definition seq ::
  "('s \<Rightarrow> (error + 'a) \<times> 's) \<Rightarrow> ('a \<Rightarrow> 's \<Rightarrow> (error + 'b) \<times> 's) \<Rightarrow> 's \<Rightarrow> (error + 'b) \<times> 's" where
  "seq m f s = (case m s of (Inl e, s') \<Rightarrow> (Inl e, s') | (Inr x, s') \<Rightarrow> f x s')"

definition request :: "call \<Rightarrow> error + 'a \<Rightarrow> session \<Rightarrow> (error + 'a) \<times> session" where
  "request c reply st = (reply, st\<lparr>trace := trace st @ [c]\<rparr>)"

definition sleep :: "nat \<Rightarrow> session \<Rightarrow> session" where
  "sleep n st = st\<lparr>trace := trace st @ [Sleep n]\<rparr>"

definition lookup :: "payload \<Rightarrow> string \<Rightarrow> session \<Rightarrow> (error + string) \<times> session" where
  "lookup d k st = (case map_of d k of None \<Rightarrow> (Inl KeyError, st) | Some v \<Rightarrow> (Inr v, st))"

subsection \<open>\<open>CDEApiHelper\<close> and \<open>generate_job_name\<close>\<close>

record resource =
  file_name :: string
  file_obj :: string
  job_name :: string

definition generate_job_name :: "remote \<Rightarrow> string" where
  "generate_job_name env =
     ''dbt-job-'' @ digits_of (time_ms_job env) @ ''-'' @ zfill 8 (digits_of (random_int env))"

definition generate_sql_resource :: "remote \<Rightarrow> string \<Rightarrow> string \<Rightarrow> resource" where
  "generate_sql_resource env jname sql =
     \<lparr>file_name = jname @ ''-'' @ digits_of (time_ms_sql env) @ ''.sql'',
      file_obj = sql,
      job_name = jname\<rparr>"

definition get_python_wrapper_resource :: "remote \<Rightarrow> resource \<Rightarrow> resource" where
  "get_python_wrapper_resource env sql_resource =
     \<lparr>file_name = job_name sql_resource @ ''-'' @ digits_of (time_ms_py env) @ ''.py'',
      file_obj =
        ''import pyspark'' @ [CHR 0x0A] @ ''from pyspark.sql import SparkSession'' @ [CHR 0x0A]
        @ ''spark=SparkSession.builder.appName('' @ [CHR 0x27] @ job_name sql_resource
        @ [CHR 0x27] @ '').enableHiveSupport().getOrCreate()'' @ [CHR 0x0A]
        @ ''sql=open('' @ [CHR 0x27] @ ''/app/mount/'' @ file_name sql_resource @ [CHR 0x27]
        @ '', '' @ [CHR 0x27] @ ''r'' @ [CHR 0x27] @ '').read()'' @ [CHR 0x0A]
        @ ''df = spark.sql(sql)'' @ [CHR 0x0A]
        @ ''df.show(n=1000000,truncate=False)'' @ [CHR 0x0A],
      job_name = job_name sql_resource\<rparr>"

subsection \<open>\<open>CDEApiConnection\<close>\<close>

definition create_resource :: "remote \<Rightarrow> string \<Rightarrow> string \<Rightarrow> session \<Rightarrow> (error + nat) \<times> session" where
  "create_resource env resource_name resource_type =
     request (CreateResource resource_name resource_type) (create_resource_reply env)"

definition delete_resource :: "remote \<Rightarrow> string \<Rightarrow> session \<Rightarrow> (error + nat) \<times> session" where
  "delete_resource env resource_name =
     request (DeleteResource resource_name) (delete_resource_reply env)"

definition upload_resource :: "remote \<Rightarrow> string \<Rightarrow> resource \<Rightarrow> session \<Rightarrow> (error + nat) \<times> session" where
  "upload_resource env resource_name file_resource =
     request (UploadResource resource_name (file_name file_resource) (file_obj file_resource))
       (upload_resource_reply env (file_name file_resource))"

definition submit_job ::
  "remote \<Rightarrow> string \<Rightarrow> string \<Rightarrow> resource \<Rightarrow> resource \<Rightarrow> session \<Rightarrow> (error + nat) \<times> session" where
  "submit_job env jname resource_name sql_resource py_resource =
     request (SubmitJob jname resource_name (file_name py_resource) (file_name sql_resource))
       (submit_job_reply env)"

definition run_job :: "remote \<Rightarrow> string \<Rightarrow> session \<Rightarrow> (error + payload) \<times> session" where
  "run_job env jname = request (RunJob jname) (run_job_reply env)"

text \<open>The \<open>i\<close>-th status request of the execution, decoded.\<close>

definition get_job_run_status :: "remote \<Rightarrow> nat \<Rightarrow> payload \<Rightarrow> session \<Rightarrow> (error + payload) \<times> session" where
  "get_job_run_status env i job =
     seq (lookup job ''id'') (\<lambda>jid. request (GetJobRunStatus jid) (job_run_status_reply env i))"

definition delete_job :: "remote \<Rightarrow> string \<Rightarrow> session \<Rightarrow> (error + nat) \<times> session" where
  "delete_job env jname = request (DeleteJob jname) (delete_job_reply env)"

text \<open>\<open>get_job_output\<close> with the default \<open>log_type="stdout"\<close>, the only one \<open>execute\<close>
  uses: the settle delay, the request, then the parse of the stripped lines.\<close>

definition get_job_output ::
  "remote \<Rightarrow> string \<Rightarrow> payload \<Rightarrow> session \<Rightarrow> (error + (field list \<times> row list) \<times> string) \<times> session" where
  "get_job_output env jname job =
     (\<lambda>st. seq (lookup job ''id'')
        (\<lambda>jid. seq (request (GetLogs jid ''driver/stdout'') (logs_reply env))
           (\<lambda>text st'. (Inr (parse_query_result (map strip (split_on (CHR 0x0A) text)), text), st')))
        (sleep DEFAULT_LOG_WAIT st))"

subsection \<open>\<open>CDEApiCursor\<close>\<close>

text \<open>
  The \<open>while\<close> loop of \<open>execute\<close>, entered with the status last read, the time
  accumulated and the number of the last status request. Every round adds
  \<open>DEFAULT_POLL_WAIT\<close>, and a round that reaches \<open>DEFAULT_CDE_JOB_TIMEOUT\<close> raises, so
  the loop ends.
\<close>

function wait_for_job ::
  "remote \<Rightarrow> string \<Rightarrow> payload \<Rightarrow> nat \<Rightarrow> nat \<Rightarrow> payload \<Rightarrow> session \<Rightarrow> (error + unit) \<times> session" where
  "wait_for_job env jname job waited i job_status st =
     (if map_of job_status ''status'' = Some ''succeeded'' then (Inr (), st)
      else (case get_job_run_status env (Suc i) job (sleep DEFAULT_POLL_WAIT st) of
              (Inl e, st2) \<Rightarrow> (Inl e, st2)
            | (Inr job_status', st2) \<Rightarrow>
                (case map_of job_status' ''status'' of
                   None \<Rightarrow> (Inl KeyError, st2)
                 | Some s \<Rightarrow>
                     if s = ''failed''
                     then (case get_job_output env jname job st2 of
                             (Inl e, st3) \<Rightarrow> (Inl e, st3)
                           | (Inr out, st3) \<Rightarrow> (Inl (DatabaseError job_status'), st3))
                     else if DEFAULT_CDE_JOB_TIMEOUT \<le> waited + DEFAULT_POLL_WAIT
                     then (Inl (RPCTimeoutException DEFAULT_CDE_JOB_TIMEOUT), st2)
                     else wait_for_job env jname job (waited + DEFAULT_POLL_WAIT) (Suc i)
                            job_status' st2)))"
  by pat_completeness auto
termination
  by (relation "measure (\<lambda>(env, jname, job, waited, i, job_status, st). DEFAULT_CDE_JOB_TIMEOUT - waited)")
     (auto simp: DEFAULT_POLL_WAIT_def DEFAULT_CDE_JOB_TIMEOUT_def)

declare wait_for_job.simps [simp del]

text \<open>\<open>self._rows = rows; self._schema = schema\<close>: the list built by the parser is a
  new object.\<close>

definition store_result :: "field list \<Rightarrow> row list \<Rightarrow> session \<Rightarrow> (error + unit) \<times> session" where
  "store_result schema rows st =
     (Inr (), st\<lparr>heap := (heap st)(next_addr st := rows),
                cur_rows := ListAt (next_addr st),
                next_addr := Suc (next_addr st),
                cur_schema := Some schema\<rparr>)"

section \<open>Bindings\<close>

text \<open>
  The values a caller binds, with the classes \<open>isinstance\<close> tells apart. \<open>Dec neg c e\<close>
  is the finite \<open>Decimal\<close> of sign \<open>neg\<close>, coefficient \<open>c\<close> and exponent \<open>e\<close>.
\<close>

datatype pyclass =
    BoolClass | IntClass | FloatClass | DecimalClass | DatetimeClass | DateClass
  | StrClass | NoneTypeClass | ObjectClass

datatype decimal = Dec bool nat int | DecInfinity bool | DecNaN | DecSNaN

record datetime =
  year :: nat
  month :: nat
  day :: nat
  hour :: nat
  minute :: nat
  second :: nat
  microsecond :: nat

datatype pyobj =
    PBool bool
  | PInt int
  | PFloat pyfloat
  | PDecimal decimal
  | PDatetime datetime
  | PStr string
  | PNone

definition class_of :: "pyobj \<Rightarrow> pyclass" where
  "class_of v =
     (case v of
        PBool b \<Rightarrow> BoolClass
      | PInt n \<Rightarrow> IntClass
      | PFloat f \<Rightarrow> FloatClass
      | PDecimal d \<Rightarrow> DecimalClass
      | PDatetime t \<Rightarrow> DatetimeClass
      | PStr s \<Rightarrow> StrClass
      | PNone \<Rightarrow> NoneTypeClass)"

text \<open>The method resolution order: \<open>bool\<close> is a subclass of \<open>int\<close>, \<open>datetime\<close> of
  \<open>date\<close>.\<close>

definition mro :: "pyclass \<Rightarrow> pyclass list" where
  "mro c =
     (if c = BoolClass then [BoolClass, IntClass, ObjectClass]
      else if c = DatetimeClass then [DatetimeClass, DateClass, ObjectClass]
      else if c = ObjectClass then [ObjectClass]
      else [c, ObjectClass])"

definition isinstance :: "pyobj \<Rightarrow> pyclass list \<Rightarrow> bool" where
  "isinstance v classes = list_ex (\<lambda>c. c \<in> set (mro (class_of v))) classes"

text \<open>
  What the module takes from outside the repository and the model leaves open: the
  tuple \<open>dbt.utils.DECIMALS\<close>, the printed form of a float, a \<open>Decimal\<close> or a
  \<open>datetime\<close>, and the \<open>%\<close> operator of \<open>str\<close>.
\<close>

record pylib =
  DECIMALS :: "pyclass list"
  str_other :: "pyobj \<Rightarrow> string"
  percent_format :: "string \<Rightarrow> pyobj list \<Rightarrow> error + string"

definition NUMBERS :: "pylib \<Rightarrow> pyclass list" where
  "NUMBERS lib = DECIMALS lib @ [IntClass, FloatClass]"

definition float_of_decimal :: "decimal \<Rightarrow> error + pyfloat" where
  "float_of_decimal d =
     (case d of
        Dec neg c e \<Rightarrow> Inr (Dbl neg (scale10 c e))
      | DecInfinity neg \<Rightarrow> Inr (FInf neg)
      | DecNaN \<Rightarrow> Inr FNaN
      | DecSNaN \<Rightarrow> Inl ValueError)"

text \<open>The built-in \<open>float\<close>: \<open>True\<close> and \<open>False\<close> are the integers 1 and 0.\<close>

definition py_float :: "pyobj \<Rightarrow> error + pyfloat" where
  "py_float v =
     (case v of
        PBool b \<Rightarrow> float_of_int (if b then 1 else 0)
      | PInt n \<Rightarrow> float_of_int n
      | PFloat f \<Rightarrow> Inr f
      | PDecimal d \<Rightarrow> float_of_decimal d
      | PDatetime t \<Rightarrow> Inl TypeError
      | PStr s \<Rightarrow> (case float_of_str s of None \<Rightarrow> Inl ValueError | Some f \<Rightarrow> Inr f)
      | PNone \<Rightarrow> Inl TypeError)"

definition py_str :: "pylib \<Rightarrow> pyobj \<Rightarrow> string" where
  "py_str lib v =
     (case v of
        PBool b \<Rightarrow> (if b then ''True'' else ''False'')
      | PInt n \<Rightarrow> (if n < 0 then ''-'' @ digits_of (nat (- n)) else digits_of (nat n))
      | PStr s \<Rightarrow> s
      | PNone \<Rightarrow> ''None''
      | PFloat f \<Rightarrow> str_other lib v
      | PDecimal d \<Rightarrow> str_other lib v
      | PDatetime t \<Rightarrow> str_other lib v)"

text \<open>\<open>value.strftime('%Y-%m-%d %H:%M:%S.%f')\<close>, the year as the C library prints it
  (no padding).\<close>

definition strftime :: "datetime \<Rightarrow> string" where
  "strftime t =
     digits_of (year t) @ ''-'' @ zfill 2 (digits_of (month t)) @ ''-''
     @ zfill 2 (digits_of (day t)) @ '' '' @ zfill 2 (digits_of (hour t)) @ '':''
     @ zfill 2 (digits_of (minute t)) @ '':'' @ zfill 2 (digits_of (second t)) @ ''.''
     @ zfill 6 (digits_of (microsecond t))"

definition quoted :: "string \<Rightarrow> string" where
  "quoted s = [CHR 0x27] @ s @ [CHR 0x27]"

definition fix_binding :: "pylib \<Rightarrow> pyobj \<Rightarrow> error + pyobj" where
  "fix_binding lib v =
     (if isinstance v (NUMBERS lib)
      then (case py_float v of Inl e \<Rightarrow> Inl e | Inr f \<Rightarrow> Inr (PFloat f))
      else (case v of
              PDatetime t \<Rightarrow> Inr (PStr (quoted (take (length (strftime t) - 3) (strftime t))))
            | _ \<Rightarrow> Inr (PStr (quoted (py_str lib v)))))"

fun fix_bindings :: "pylib \<Rightarrow> pyobj list \<Rightarrow> error + pyobj list" where
  "fix_bindings lib [] = Inr []"
| "fix_bindings lib (b # bs) =
     (case fix_binding lib b of
        Inl e \<Rightarrow> Inl e
      | Inr v \<Rightarrow> (case fix_bindings lib bs of Inl e \<Rightarrow> Inl e | Inr vs \<Rightarrow> Inr (v # vs)))"

section \<open>The cursor and the connection wrapper\<close>

definition execute :: "pylib \<Rightarrow> remote \<Rightarrow> string \<Rightarrow> pyobj list \<Rightarrow> session \<Rightarrow> (error + unit) \<times> session" where
  "execute lib env sql parameters =
     seq (\<lambda>st. (if length parameters > 0 then percent_format lib sql parameters else Inr sql, st))
       (\<lambda>sql'. seq (create_resource env (generate_job_name env) ''files'')
       (\<lambda>_. seq (upload_resource env (generate_job_name env)
                   (generate_sql_resource env (generate_job_name env) sql'))
       (\<lambda>_. seq (upload_resource env (generate_job_name env)
                   (get_python_wrapper_resource env
                      (generate_sql_resource env (generate_job_name env) sql')))
       (\<lambda>_. seq (submit_job env (generate_job_name env) (generate_job_name env)
                   (generate_sql_resource env (generate_job_name env) sql')
                   (get_python_wrapper_resource env
                      (generate_sql_resource env (generate_job_name env) sql')))
       (\<lambda>_. seq (run_job env (generate_job_name env))
       (\<lambda>job. seq (get_job_run_status env 0 job)
       (\<lambda>job_status. seq (lookup job_status ''status'')
       (\<lambda>_. seq (wait_for_job env (generate_job_name env) job 0 0 job_status)
       (\<lambda>_. seq (get_job_output env (generate_job_name env) job)
       (\<lambda>out. seq (store_result (fst (fst out)) (snd (fst out)))
       (\<lambda>_. seq (delete_job env (generate_job_name env))
       (\<lambda>_. seq (delete_resource env (generate_job_name env))
       (\<lambda>_ st. (Inr (), st))))))))))))))"

text \<open>\<open>fetchall\<close> returns the attribute itself: \<open>None\<close>, or the reference to the list.\<close>

definition fetchall :: "session \<Rightarrow> error + addr option" where
  "fetchall st =
     (case cur_rows st of
        Unset \<Rightarrow> Inl AttributeError
      | IsNone \<Rightarrow> Inr None
      | ListAt a \<Rightarrow> Inr (Some a))"

text \<open>\<open>fetchone\<close>: \<open>pop(0)\<close> on the list object, \<open>None\<close> when there is no row.\<close>

definition fetchone :: "session \<Rightarrow> (error + row option) \<times> session" where
  "fetchone st =
     (case cur_rows st of
        Unset \<Rightarrow> (Inl AttributeError, st)
      | IsNone \<Rightarrow> (Inr None, st)
      | ListAt a \<Rightarrow>
          (case heap st a of
             [] \<Rightarrow> (Inr None, st)
           | r # rs \<Rightarrow> (Inr (Some r), st\<lparr>heap := (heap st)(a := rs)\<rparr>)))"

definition close :: "session \<Rightarrow> session" where
  "close st = st\<lparr>cur_rows := IsNone\<rparr>"

text \<open>\<open>k\<close> calls of \<open>fetchone\<close> in a row: what each returned, and the state left.\<close>

fun fetchone_times :: "nat \<Rightarrow> session \<Rightarrow> (error + row option) list \<times> session" where
  "fetchone_times 0 st = ([], st)"
| "fetchone_times (Suc k) st =
     (fst (fetchone st) # fst (fetchone_times k (snd (fetchone st))),
      snd (fetchone_times k (snd (fetchone st))))"

subsection \<open>\<open>CDEApiSessionConnectionWrapper\<close>\<close>

definition wrapper_cursor :: "session \<Rightarrow> session" where
  "wrapper_cursor st = st\<lparr>has_cursor := True, cur_rows := Unset, cur_schema := None\<rparr>"

definition wrapper_close :: "session \<Rightarrow> session" where
  "wrapper_close st = (if has_cursor st then close st else st)"

definition wrapper_fetchall :: "session \<Rightarrow> error + addr option" where
  "wrapper_fetchall st = (if has_cursor st then fetchall st else Inl AttributeError)"

text \<open>The statement \<open>execute\<close> hands to the cursor: lines 617 and 618.\<close>

definition statement_text :: "string \<Rightarrow> string" where
  "statement_text sql = (if endswith (strip sql) '';'' then butlast (strip sql) else sql)"

definition wrapper_execute ::
  "pylib \<Rightarrow> remote \<Rightarrow> string \<Rightarrow> pyobj list option \<Rightarrow> session \<Rightarrow> (error + unit) \<times> session" where
  "wrapper_execute lib env sql bindings st =
     (case bindings of
        None \<Rightarrow>
          if has_cursor st then execute lib env (statement_text sql) [] st
          else (Inl AttributeError, st)
      | Some bs \<Rightarrow>
          (case fix_bindings lib bs of
             Inl e \<Rightarrow> (Inl e, st)
           | Inr bs' \<Rightarrow>
               if has_cursor st then execute lib env (statement_text sql) bs' st
               else (Inl AttributeError, st)))"

subsection \<open>A sample service\<close>

text \<open>
  Concrete replies for the examples: every call returns, the status requests answer
  with the statuses of the given sequence in turn (the last one from then on), the job
  deletion answers \<open>deleted\<close>, and the logs hold a one-column table.
\<close>

definition sample_lib :: pylib where
  "sample_lib = \<lparr>DECIMALS = [DecimalClass], str_other = (\<lambda>v. []), percent_format = (\<lambda>s ps. Inr s)\<rparr>"

definition sample_session :: session where
  "sample_session =
     \<lparr>has_cursor = True, cur_rows = Unset, cur_schema = None, heap = (\<lambda>a. []),
      next_addr = 0, trace = []\<rparr>"

definition sample_remote :: "string list \<Rightarrow> error + nat \<Rightarrow> remote" where
  "sample_remote statuses deleted =
     \<lparr>time_ms_job = 1667557000123, random_int = 17,
      time_ms_sql = 1667557000456, time_ms_py = 1667557000789,
      create_resource_reply = Inr 201,
      upload_resource_reply = (\<lambda>f. Inr 201),
      submit_job_reply = Inr 201,
      run_job_reply = Inr [(''id'', ''7'')],
      job_run_status_reply =
        (\<lambda>i. Inr [(''id'', ''7''), (''status'', statuses ! min i (length statuses - 1))]),
      logs_reply = Inr (''+---+'' @ [CHR 0x0A] @ ''|A  |'' @ [CHR 0x0A] @ ''+---+'' @ [CHR 0x0A]
                        @ ''|1  |'' @ [CHR 0x0A] @ ''+---+'' @ [CHR 0x0A]),
      delete_job_reply = deleted,
      delete_resource_reply = Inr 204\<rparr>"

section \<open>Properties of the output parser\<close>

lemma length_convert_type: "length (fst (convert_type r ts)) = length r"
  by (induction r ts rule: convert_type.induct) (auto split: option.splits sum.splits)

lemma map_length_convert_rows: "map length (fst (convert_rows rs ts)) = map length rs"
  by (induction rs) (auto simp: length_convert_type comp_def split: option.splits)

lemma extract_datatypes_lengths:
  "rows \<noteq> [] \<Longrightarrow> map length (fst (extract_datatypes schema rows)) = map length rows"
  by (cases rows)
     (auto simp: extract_datatypes_def Let_def map_length_convert_rows length_convert_type comp_def
           split: option.splits)

lemma extract_datatypes_schema_length:
  "snd (extract_datatypes schema rows) = Inr schema' \<Longrightarrow> length schema' = length schema"
  by (cases rows)
     (auto simp: extract_datatypes_def Let_def set_types_def split: if_splits option.splits)

lemma data_rows_takeWhile:
  "data_rows ls = map (\<lambda>l. cells (strip l)) (takeWhile (\<lambda>l. \<not> is_separator l) ls)"
  by (induction ls) (auto simp: is_separator_def)

lemma convert_type_stops:
  "snd (convert_type r ts) = Some e \<Longrightarrow>
     \<exists>j<length r. fst (convert_type r ts) = fst (convert_type (take j r) ts) @ map Str (drop j r)
        \<and> snd (convert_type (take j r) ts) = None
        \<and> ((length ts \<le> j \<and> e = IndexError)
            \<or> (j < length ts
                \<and> (case convert_map (ts ! j) of
                      None \<Rightarrow> e = KeyError
                    | Some conv \<Rightarrow> conv (r ! j) = Inl e)))"
proof (induction r ts rule: convert_type.induct)
  case (1 col_types)
  then show ?case by simp
next
  case (2 col cols)
  then have "e = IndexError" by simp
  then show ?case by (intro exI[of _ 0]) simp
next
  case (3 col cols col_type col_types)
  show ?case
  proof (cases "convert_map col_type")
    case None
    with "3.prems" have "e = KeyError" by simp
    with None show ?thesis by (intro exI[of _ 0]) simp
  next
    case (Some conv)
    show ?thesis
    proof (cases "conv col")
      case (Inl e')
      with "3.prems" Some have "e' = e" by simp
      with Some Inl show ?thesis by (intro exI[of _ 0]) simp
    next
      case (Inr v)
      from "3.prems" Some Inr have "snd (convert_type cols col_types) = Some e"
        by simp
      with "3.IH" Some Inr obtain j where j: "j < length cols"
        "fst (convert_type cols col_types) =
           fst (convert_type (take j cols) col_types) @ map Str (drop j cols)"
        "snd (convert_type (take j cols) col_types) = None"
        "(length col_types \<le> j \<and> e = IndexError)
         \<or> (j < length col_types
             \<and> (case convert_map (col_types ! j) of
                   None \<Rightarrow> e = KeyError
                 | Some conv \<Rightarrow> conv (cols ! j) = Inl e))"
        by blast
      from j(4) show ?thesis
        by (intro exI[of _ "Suc j"]) (auto simp: Some Inr j(1,2,3) split: option.splits)
    qed
  qed
qed

text \<open>Under the types \<open>get_type\<close> gives, the only conversion that raises is the one to
  a number, on a text that \<open>float\<close> rejects.\<close>

lemma failing_cell_of_classified:
  assumes "j < length first_row"
      and "case convert_map (map get_type first_row ! j) of
             None \<Rightarrow> e = KeyError
           | Some conv \<Rightarrow> conv x = Inl e"
  shows "get_type (first_row ! j) = ''number'' \<and> float_of_str x = None \<and> e = ValueError"
  using assms
  by (auto simp: get_type_def convert_map_def convert_number_def convert_logical_def
           split: if_splits option.splits)

lemma convert_rows_stops:
  "snd (convert_rows rs ts) = Some e \<Longrightarrow>
     \<exists>k<length rs.
        fst (convert_rows rs ts) =
          fst (convert_rows (take k rs) ts) @ [fst (convert_type (rs ! k) ts)]
          @ map (map Str) (drop (Suc k) rs)
        \<and> snd (convert_rows (take k rs) ts) = None
        \<and> snd (convert_type (rs ! k) ts) = Some e"
proof (induction rs)
  case Nil
  then show ?case by simp
next
  case (Cons r rs)
  show ?case
  proof (cases "snd (convert_type r ts)")
    case (Some e')
    with Cons.prems have "e' = e" by simp
    with Some show ?thesis by (intro exI[of _ 0]) simp
  next
    case None
    with Cons.prems have "snd (convert_rows rs ts) = Some e" by simp
    with Cons.IH obtain k where k: "k < length rs"
      "fst (convert_rows rs ts) =
         fst (convert_rows (take k rs) ts) @ [fst (convert_type (rs ! k) ts)]
         @ map (map Str) (drop (Suc k) rs)"
      "snd (convert_rows (take k rs) ts) = None"
      "snd (convert_type (rs ! k) ts) = Some e"
      by blast
    show ?thesis by (rule exI[of _ "Suc k"]) (simp add: None k)
  qed
qed

lemma extract_datatypes_raises:
  "rows \<noteq> [] \<Longrightarrow> snd (extract_datatypes schema rows) = Inl e \<Longrightarrow>
     snd (convert_rows rows (map get_type (hd rows))) = Some e
     \<and> fst (extract_datatypes schema rows) = fst (convert_rows rows (map get_type (hd rows)))"
  by (cases rows) (auto simp: extract_datatypes_def Let_def split: if_splits option.splits)

lemma header_schema_all_string: "list_all (\<lambda>f. type f = ''string'') (header_schema l)"
  by (simp add: header_schema_def list_all_iff)

text \<open>
  C2, as the specification states it, does not hold. The header \<open>A\<close> with the data rows
  \<open>1\<close>, \<open>x\<close>, \<open>2\<close>: the first row types the column as a number, the conversion of \<open>x\<close>
  raises \<open>ValueError\<close>, and yet the parse returns, with the first row converted and the
  other two left as text.
\<close>

theorem conversion_error_kept_counterexample:
  "snd (extract_datatypes [\<lparr>name = ''A'', type = ''string'', nullable = False\<rparr>]
          [[''1''], [''x''], [''2'']]) = Inl ValueError
   \<and> parse_query_result [''+---+'', ''|A  |'', ''+---+'', ''|1  |'', ''|x  |'', ''|2  |'', ''+---+'']
       = ([\<lparr>name = ''A'', type = ''string'', nullable = False\<rparr>],
          [[Num (Dbl False 1)], [Str ''x''], [Str ''2'']])"
  by code_simp

text \<open>
  C2, amended. When type inference has classified the columns from the first data row
  and the conversion of some value raises, the error is caught inside the table parse
  and does not leave it. The parse returns the schema with every column still typed
  \<open>string\<close>, and the rows as the interrupted conversion left them. With \<open>k\<close> the row
  whose conversion raised (every row before it converts without error) and \<open>j\<close> the
  cell of that row that raised (every cell before it converts): the rows before \<open>k\<close>
  are converted, row \<open>k\<close> is converted up to cell \<open>j\<close>, and cell \<open>j\<close>, the cells after
  it and the rows after \<open>k\<close> keep their text. The cell that raised is either in a
  column classified as number and holds a text that \<open>float\<close> rejects (\<open>ValueError\<close>),
  or lies beyond the width of the first row (\<open>IndexError\<close>).
\<close>

theorem conversion_error_is_caught:
  assumes "find_separator res_lines 0 \<noteq> length res_lines"
      and "schema = header_schema (res_lines ! find_separator res_lines 0)"
      and "schema \<noteq> []"
      and "rows = data_rows (drop (find_separator res_lines 0 + 2) res_lines)"
      and "rows \<noteq> []"
      and "snd (extract_datatypes schema rows) = Inl e"
  shows "parse_query_result res_lines = (schema, fst (extract_datatypes schema rows))
         \<and> list_all (\<lambda>f. type f = ''string'') schema
         \<and> (\<exists>k j. k < length rows \<and> j < length (rows ! k)
              \<and> snd (convert_rows (take k rows) (map get_type (hd rows))) = None
              \<and> snd (convert_type (rows ! k) (map get_type (hd rows))) = Some e
              \<and> snd (convert_type (take j (rows ! k)) (map get_type (hd rows))) = None
              \<and> ((j < length (hd rows) \<and> get_type (hd rows ! j) = ''number''
                   \<and> float_of_str (rows ! k ! j) = None \<and> e = ValueError)
                  \<or> (length (hd rows) \<le> j \<and> e = IndexError))
              \<and> fst (extract_datatypes schema rows) =
                  fst (convert_rows (take k rows) (map get_type (hd rows)))
                  @ [fst (convert_type (take j (rows ! k)) (map get_type (hd rows)))
                     @ map Str (drop j (rows ! k))]
                  @ map (map Str) (drop (Suc k) rows))"
proof -
  have parse: "parse_query_result res_lines = (schema, fst (extract_datatypes schema rows))"
    using assms(1,3,5,6) unfolding parse_query_result_def Let_def assms(2)[symmetric] assms(4)[symmetric]
    by simp
  have strings: "list_all (\<lambda>f. type f = ''string'') schema"
    unfolding assms(2) by (rule header_schema_all_string)
  from extract_datatypes_raises[OF assms(5,6)]
  have raised: "snd (convert_rows rows (map get_type (hd rows))) = Some e"
    and left: "fst (extract_datatypes schema rows) = fst (convert_rows rows (map get_type (hd rows)))"
    by simp_all
  from convert_rows_stops[OF raised] obtain k where k: "k < length rows"
    "fst (convert_rows rows (map get_type (hd rows))) =
       fst (convert_rows (take k rows) (map get_type (hd rows)))
       @ [fst (convert_type (rows ! k) (map get_type (hd rows)))]
       @ map (map Str) (drop (Suc k) rows)"
    "snd (convert_rows (take k rows) (map get_type (hd rows))) = None"
    "snd (convert_type (rows ! k) (map get_type (hd rows))) = Some e"
    by blast
  from convert_type_stops[OF k(4)] obtain j where j: "j < length (rows ! k)"
    "fst (convert_type (rows ! k) (map get_type (hd rows))) =
       fst (convert_type (take j (rows ! k)) (map get_type (hd rows))) @ map Str (drop j (rows ! k))"
    "snd (convert_type (take j (rows ! k)) (map get_type (hd rows))) = None"
    "(length (map get_type (hd rows)) \<le> j \<and> e = IndexError)
     \<or> (j < length (map get_type (hd rows))
         \<and> (case convert_map (map get_type (hd rows) ! j) of
               None \<Rightarrow> e = KeyError
             | Some conv \<Rightarrow> conv (rows ! k ! j) = Inl e))"
    by blast
  have cell: "(j < length (hd rows) \<and> get_type (hd rows ! j) = ''number''
                \<and> float_of_str (rows ! k ! j) = None \<and> e = ValueError)
              \<or> (length (hd rows) \<le> j \<and> e = IndexError)"
    using j(4) failing_cell_of_classified[of j "hd rows" e "rows ! k ! j"] by auto
  have shape: "fst (extract_datatypes schema rows) =
                  fst (convert_rows (take k rows) (map get_type (hd rows)))
                  @ [fst (convert_type (take j (rows ! k)) (map get_type (hd rows)))
                     @ map Str (drop j (rows ! k))]
                  @ map (map Str) (drop (Suc k) rows)"
    unfolding left k(2) j(2) by (rule refl)
  have "\<exists>k j. k < length rows \<and> j < length (rows ! k)
              \<and> snd (convert_rows (take k rows) (map get_type (hd rows))) = None
              \<and> snd (convert_type (rows ! k) (map get_type (hd rows))) = Some e
              \<and> snd (convert_type (take j (rows ! k)) (map get_type (hd rows))) = None
              \<and> ((j < length (hd rows) \<and> get_type (hd rows ! j) = ''number''
                   \<and> float_of_str (rows ! k ! j) = None \<and> e = ValueError)
                  \<or> (length (hd rows) \<le> j \<and> e = IndexError))
              \<and> fst (extract_datatypes schema rows) =
                  fst (convert_rows (take k rows) (map get_type (hd rows)))
                  @ [fst (convert_type (take j (rows ! k)) (map get_type (hd rows)))
                     @ map Str (drop j (rows ! k))]
                  @ map (map Str) (drop (Suc k) rows)"
    using k(1,3,4) j(1,3) cell shape by blast
  with parse strings show ?thesis by blast
qed

theorem conversion_error_is_caught_witness:
  "find_separator [''+---+'', ''|A  |'', ''+---+'', ''|1  |'', ''|x  |'', ''|2  |'', ''+---+''] 0
     \<noteq> length [''+---+'', ''|A  |'', ''+---+'', ''|1  |'', ''|x  |'', ''|2  |'', ''+---+'']
   \<and> [\<lparr>name = ''A'', type = ''string'', nullable = False\<rparr>] \<noteq> []
   \<and> [[''1''], [''x''], [''2'']] \<noteq> []
   \<and> snd (extract_datatypes [\<lparr>name = ''A'', type = ''string'', nullable = False\<rparr>]
            [[''1''], [''x''], [''2'']]) = Inl ValueError
   \<and> parse_query_result [''+---+'', ''|A  |'', ''+---+'', ''|1  |'', ''|x  |'', ''|2  |'', ''+---+'']
       = ([\<lparr>name = ''A'', type = ''string'', nullable = False\<rparr>],
          fst (extract_datatypes [\<lparr>name = ''A'', type = ''string'', nullable = False\<rparr>]
                 [[''1''], [''x''], [''2'']]))"
proof -
  let ?ls = "[''+---+'', ''|A  |'', ''+---+'', ''|1  |'', ''|x  |'', ''|2  |'', ''+---+'']"
  let ?schema = "[\<lparr>name = ''A'', type = ''string'', nullable = False\<rparr>]"
  let ?rows = "[[''1''], [''x''], [''2'']]"
  have h1: "find_separator ?ls 0 \<noteq> length ?ls" by code_simp
  have h2: "?schema = header_schema (?ls ! find_separator ?ls 0)" by code_simp
  have h3: "?schema \<noteq> []" by simp
  have h4: "?rows = data_rows (drop (find_separator ?ls 0 + 2) ?ls)" by code_simp
  have h5: "?rows \<noteq> []" by simp
  have h6: "snd (extract_datatypes ?schema ?rows) = Inl ValueError" by code_simp
  from conversion_error_is_caught[OF h1 h2 h3 h4 h5 h6]
  have "parse_query_result ?ls = (?schema, fst (extract_datatypes ?schema ?rows))"
    by (rule conjunct1)
  with h1 h3 h5 h6 show ?thesis by blast
qed

text \<open>
  C3, as the specification states it, does not hold. A data line with a whitespace-only
  cell gives a row shorter than the header: the empty fragments are filtered out of the
  line, so the row of \<open>|1  |   |\<close> under the header \<open>|A  |B  |\<close> has one value.
\<close>

theorem row_width_counterexample:
  "parse_query_result [''+---+---+'', ''|A  |B  |'', ''+---+---+'', ''|1  |   |'', ''+---+---+'']
     = ([\<lparr>name = ''A'', type = ''string'', nullable = False\<rparr>,
         \<lparr>name = ''B'', type = ''string'', nullable = False\<rparr>],
        [[Str ''1'']])"
  by code_simp

text \<open>
  C3, amended. For every input of the table parser that yields a header, the header
  has as many column names as its line has cells that are not empty or whitespace-only,
  and every returned data row has as many values as its own line has such cells, for
  the data lines up to the closing separator. A row has the width of the header only
  when its line has as many non-blank cells as the header line.
\<close>

theorem row_width_is_nonblank_cells:
  assumes "parse_query_result res_lines = (schema, rows)"
      and "schema \<noteq> []"
  shows "length schema =
           length (filter (\<lambda>x. strip x \<noteq> [])
                     (split_on CHR ''|'' (res_lines ! find_separator res_lines 0)))
         \<and> map length rows =
             map (\<lambda>l. length (filter (\<lambda>x. strip x \<noteq> []) (split_on CHR ''|'' (strip l))))
               (takeWhile (\<lambda>l. \<not> is_separator l)
                  (drop (find_separator res_lines 0 + 2) res_lines))"
proof -
  define hdr where "hdr = header_schema (res_lines ! find_separator res_lines 0)"
  define rows0 where "rows0 = data_rows (drop (Suc (Suc (find_separator res_lines 0))) res_lines)"
  have width: "length hdr =
      length (filter (\<lambda>x. strip x \<noteq> [])
                (split_on CHR ''|'' (res_lines ! find_separator res_lines 0)))"
    by (simp add: hdr_def header_schema_def cells_def)
  have widths: "map length rows0 =
      map (\<lambda>l. length (filter (\<lambda>x. strip x \<noteq> []) (split_on CHR ''|'' (strip l))))
        (takeWhile (\<lambda>l. \<not> is_separator l) (drop (find_separator res_lines 0 + 2) res_lines))"
    by (simp add: rows0_def data_rows_takeWhile cells_def comp_def)
  have "length schema = length hdr \<and> map length rows = map length rows0"
  proof (cases "rows0 = []")
    case True
    with assms show ?thesis
      by (auto simp: parse_query_result_def Let_def hdr_def[symmetric] rows0_def[symmetric]
               split: if_splits)
  next
    case False
    show ?thesis
    proof (cases "snd (extract_datatypes hdr rows0)")
      case (Inl e)
      with assms False have "schema = hdr" "rows = fst (extract_datatypes hdr rows0)"
        by (auto simp: parse_query_result_def Let_def hdr_def[symmetric] rows0_def[symmetric]
                 split: if_splits)
      with False show ?thesis by (simp add: extract_datatypes_lengths)
    next
      case (Inr schema')
      with assms False have "schema = schema'" "rows = fst (extract_datatypes hdr rows0)"
        by (auto simp: parse_query_result_def Let_def hdr_def[symmetric] rows0_def[symmetric]
                 split: if_splits)
      with False Inr show ?thesis
        by (simp add: extract_datatypes_lengths extract_datatypes_schema_length)
    qed
  qed
  with width widths show ?thesis by simp
qed

theorem row_width_is_nonblank_cells_witness:
  "parse_query_result [''+---+---+'', ''|A  |B  |'', ''+---+---+'', ''|1  |   |'', ''+---+---+'']
     = ([\<lparr>name = ''A'', type = ''string'', nullable = False\<rparr>,
         \<lparr>name = ''B'', type = ''string'', nullable = False\<rparr>],
        [[Str ''1'']])
   \<and> [\<lparr>name = ''A'', type = ''string'', nullable = False\<rparr>,
       \<lparr>name = ''B'', type = ''string'', nullable = False\<rparr>] \<noteq> []
   \<and> map length [[Str ''1'']] =
       map (\<lambda>l. length (filter (\<lambda>x. strip x \<noteq> []) (split_on CHR ''|'' (strip l))))
         (takeWhile (\<lambda>l. \<not> is_separator l)
            (drop (find_separator
                     [''+---+---+'', ''|A  |B  |'', ''+---+---+'', ''|1  |   |'', ''+---+---+''] 0 + 2)
               [''+---+---+'', ''|A  |B  |'', ''+---+---+'', ''|1  |   |'', ''+---+---+'']))"
proof -
  let ?ls = "[''+---+---+'', ''|A  |B  |'', ''+---+---+'', ''|1  |   |'', ''+---+---+'']"
  let ?schema = "[\<lparr>name = ''A'', type = ''string'', nullable = False\<rparr>,
                  \<lparr>name = ''B'', type = ''string'', nullable = False\<rparr>]"
  have h1: "parse_query_result ?ls = (?schema, [[Str ''1'']])" by code_simp
  have h2: "?schema \<noteq> []" by simp
  from row_width_is_nonblank_cells[OF h1 h2] h1 h2 show ?thesis by blast
qed

text \<open>
  C4. The box-drawn table with the header \<open>A\<close>, \<open>B\<close>, \<open>C\<close> and the single data line
  \<open>1\<close>, \<open>true\<close>, \<open>x\<close> parses to the schema typing \<open>A\<close> as number, \<open>B\<close> as boolean and
  \<open>C\<close> as string, and to the single row \<open>[1.0, True, "x"]\<close>; so does the same table
  written without padding.
\<close>

theorem parse_abc_table:
  "parse_query_result
     [''+---+----+---+'', ''|A  |B   |C  |'', ''+---+----+---+'', ''|1  |true|x  |'', ''+---+----+---+'']
     = ([\<lparr>name = ''A'', type = ''number'', nullable = False\<rparr>,
         \<lparr>name = ''B'', type = ''boolean'', nullable = False\<rparr>,
         \<lparr>name = ''C'', type = ''string'', nullable = False\<rparr>],
        [[Num (Dbl False 1), Boolean True, Str ''x'']])
   \<and> parse_query_result [''+-+-+-+'', ''A|B|C'', ''+-+-+-+'', ''1|true|x'', ''+-+-+-+'']
     = ([\<lparr>name = ''A'', type = ''number'', nullable = False\<rparr>,
         \<lparr>name = ''B'', type = ''boolean'', nullable = False\<rparr>,
         \<lparr>name = ''C'', type = ''string'', nullable = False\<rparr>],
        [[Num (Dbl False 1), Boolean True, Str ''x'']])"
  by code_simp




section \<open>Properties of the cursor\<close>

lemma fetchone_times_ListAt:
  "cur_rows st = ListAt a \<Longrightarrow>
     fst (fetchone_times k st) =
       map (\<lambda>r. Inr (Some r)) (take k (heap st a)) @ replicate (k - length (heap st a)) (Inr None)
     \<and> cur_rows (snd (fetchone_times k st)) = ListAt a
     \<and> heap (snd (fetchone_times k st)) a = drop k (heap st a)"
proof (induction k arbitrary: st)
  case 0
  then show ?case by simp
next
  case (Suc k)
  show ?case
  proof (cases "heap st a")
    case Nil
    with Suc.prems have f: "fetchone st = (Inr None, st)"
      by (simp add: fetchone_def)
    from Suc.IH[OF Suc.prems] Nil show ?thesis
      by (simp add: f)
  next
    case (Cons r rs)
    with Suc.prems have f: "fetchone st = (Inr (Some r), st\<lparr>heap := (heap st)(a := rs)\<rparr>)"
      by (simp add: fetchone_def)
    have c: "cur_rows (st\<lparr>heap := (heap st)(a := rs)\<rparr>) = ListAt a"
      using Suc.prems by simp
    from Suc.IH[OF c] Cons show ?thesis
      by (simp add: f)
  qed
qed

text \<open>
  C6. On a result set of \<open>N\<close> rows, \<open>k\<close> calls of \<open>fetchone\<close> with \<open>k\<close> at least \<open>N + 1\<close>
  return the \<open>N\<close> rows in order, the first remaining row first, and then \<open>None\<close> on
  the call \<open>N + 1\<close> and on every call after it.
\<close>

theorem fetchone_returns_rows_then_none:
  assumes "cur_rows st = ListAt a"
      and "length (heap st a) < k"
  shows "fst (fetchone_times k st) =
           map (\<lambda>r. Inr (Some r)) (heap st a) @ replicate (k - length (heap st a)) (Inr None)"
  using fetchone_times_ListAt[OF assms(1), of k] assms(2) by simp

theorem fetchone_returns_rows_then_none_witness:
  "cur_rows \<lparr>has_cursor = True, cur_rows = ListAt 0, cur_schema = None,
             heap = (\<lambda>a. [[Str ''a''], [Str ''b'']]), next_addr = 1, trace = []\<rparr> = ListAt 0
   \<and> length (heap \<lparr>has_cursor = True, cur_rows = ListAt 0, cur_schema = None,
                   heap = (\<lambda>a. [[Str ''a''], [Str ''b'']]), next_addr = 1, trace = []\<rparr> 0) < 4
   \<and> fst (fetchone_times 4
            \<lparr>has_cursor = True, cur_rows = ListAt 0, cur_schema = None,
             heap = (\<lambda>a. [[Str ''a''], [Str ''b'']]), next_addr = 1, trace = []\<rparr>)
       = [Inr (Some [Str ''a'']), Inr (Some [Str ''b'']), Inr None, Inr None]"
proof -
  let ?st = "\<lparr>has_cursor = True, cur_rows = ListAt 0, cur_schema = None,
              heap = (\<lambda>a. [[Str ''a''], [Str ''b'']]), next_addr = 1, trace = []\<rparr>"
  have h1: "cur_rows ?st = ListAt 0" by simp
  have h2: "length (heap ?st 0) < 4" by simp
  from fetchone_returns_rows_then_none[OF h1 h2]
  have "fst (fetchone_times 4 ?st) =
          [Inr (Some [Str ''a'']), Inr (Some [Str ''b'']), Inr None, Inr None]"
    by (simp add: numeral_eq_Suc)
  with h1 h2 show ?thesis by blast
qed

text \<open>
  C10. \<open>fetchall\<close> returns the reference held in \<open>_rows\<close>, not a copy: on a result of
  \<open>N\<close> rows, after \<open>k\<close> calls of \<open>fetchone\<close> the list at the reference \<open>fetchall\<close>
  returned before, which is also the one a later \<open>fetchall\<close> returns, holds exactly the
  \<open>N - k\<close> rows not yet consumed.
\<close>

theorem fetchall_shares_rows_with_fetchone:
  assumes "cur_rows st = ListAt a"
  shows "fetchall st = Inr (Some a)
         \<and> fetchall (snd (fetchone_times k st)) = Inr (Some a)
         \<and> heap (snd (fetchone_times k st)) a = drop k (heap st a)
         \<and> length (heap (snd (fetchone_times k st)) a) = length (heap st a) - k"
  using fetchone_times_ListAt[OF assms, of k] assms by (simp add: fetchall_def)

theorem fetchall_shares_rows_with_fetchone_witness:
  "cur_rows \<lparr>has_cursor = True, cur_rows = ListAt 0, cur_schema = None,
             heap = (\<lambda>a. [[Str ''a''], [Str ''b''], [Str ''c'']]), next_addr = 1, trace = []\<rparr>
     = ListAt 0
   \<and> heap (snd (fetchone_times 2
                 \<lparr>has_cursor = True, cur_rows = ListAt 0, cur_schema = None,
                  heap = (\<lambda>a. [[Str ''a''], [Str ''b''], [Str ''c'']]), next_addr = 1,
                  trace = []\<rparr>)) 0
       = [[Str ''c'']]"
proof -
  let ?st = "\<lparr>has_cursor = True, cur_rows = ListAt 0, cur_schema = None,
              heap = (\<lambda>a. [[Str ''a''], [Str ''b''], [Str ''c'']]), next_addr = 1, trace = []\<rparr>"
  have h1: "cur_rows ?st = ListAt 0" by simp
  from fetchall_shares_rows_with_fetchone[OF h1, of 2]
  have "heap (snd (fetchone_times 2 ?st)) 0 = [[Str ''c'']]"
    by simp
  with h1 show ?thesis by blast
qed

section \<open>Properties of the connection wrapper\<close>

lemma endswith_semicolon: "endswith s '';'' \<Longrightarrow> butlast s @ '';'' = s"
proof -
  assume "endswith s '';''"
  then have ne: "s \<noteq> []" and d: "drop (length s - 1) s = '';''"
    by (auto simp: endswith_def)
  from ne have "last s = last (drop (length s - 1) s)"
    by (simp add: last_drop)
  with d have "last s = CHR '';''" by simp
  with ne show ?thesis using append_butlast_last_id[of s] by simp
qed

text \<open>
  C8. The statement the wrapper's \<open>execute\<close> hands to the cursor: when the trimmed text
  ends with a semicolon it is the trimmed text without that one last character,
  otherwise it is the text as given.
\<close>

theorem one_trailing_semicolon_removed:
  "(endswith (strip sql) '';'' \<longrightarrow> statement_text sql @ '';'' = strip sql)
   \<and> (\<not> endswith (strip sql) '';'' \<longrightarrow> statement_text sql = sql)
   \<and> (has_cursor st \<longrightarrow>
        wrapper_execute lib env sql None st = execute lib env (statement_text sql) [] st)
   \<and> (has_cursor st \<and> fix_bindings lib bs = Inr bs' \<longrightarrow>
        wrapper_execute lib env sql (Some bs) st = execute lib env (statement_text sql) bs' st)"
  by (simp add: statement_text_def endswith_semicolon wrapper_execute_def)

theorem one_trailing_semicolon_removed_witness:
  "endswith (strip ''select 1;; '') '';''
   \<and> statement_text ''select 1;; '' = ''select 1;''
   \<and> \<not> endswith (strip '' select 1 '') '';''
   \<and> statement_text '' select 1 '' = '' select 1 ''"
proof -
  have h1: "endswith (strip ''select 1;; '') '';''" by code_simp
  have h2: "\<not> endswith (strip '' select 1 '') '';''" by code_simp
  have s: "strip ''select 1;; '' = ''select 1;;''" by code_simp
  from one_trailing_semicolon_removed[of "''select 1;; ''"] h1 s
  have c1: "statement_text ''select 1;; '' = ''select 1;''" by simp
  from one_trailing_semicolon_removed[of "'' select 1 ''"] h2
  have c2: "statement_text '' select 1 '' = '' select 1 ''" by blast
  from h1 h2 c1 c2 show ?thesis by blast
qed

text \<open>
  C9. A Python boolean is an instance of \<open>int\<close>, one of the classes of \<open>NUMBERS\<close>, so
  the binding coercion takes it through the numeric branch: \<open>True\<close> becomes the float
  \<open>1.0\<close> and \<open>False\<close> the float \<open>0.0\<close>, not the quoted text \<open>'True'\<close> or \<open>'False'\<close>.
\<close>

theorem boolean_binding_is_numeric:
  "isinstance (PBool b) (NUMBERS lib)
   \<and> fix_binding lib (PBool True) = Inr (PFloat (Dbl False 1))
   \<and> fix_binding lib (PBool False) = Inr (PFloat (Dbl False 0))
   \<and> fix_binding lib (PBool True) \<noteq> Inr (PStr (quoted ''True''))
   \<and> fix_binding lib (PBool False) \<noteq> Inr (PStr (quoted ''False''))"
  by (simp add: isinstance_def NUMBERS_def class_of_def mro_def fix_binding_def py_float_def
        float_of_int_def)

section \<open>Properties of the orchestration\<close>

lemma get_job_run_status_ok:
  "map_of job ''id'' = Some jid \<Longrightarrow>
     get_job_run_status env i job st =
       (job_run_status_reply env i, st\<lparr>trace := trace st @ [GetJobRunStatus jid]\<rparr>)"
  by (simp add: get_job_run_status_def seq_def lookup_def request_def)

lemma get_job_output_ok:
  "map_of job ''id'' = Some jid \<Longrightarrow> logs_reply env = Inr text \<Longrightarrow>
     get_job_output env jname job st =
       (Inr (parse_query_result (map strip (split_on (CHR 0x0A) text)), text),
        st\<lparr>trace := trace st @ [Sleep DEFAULT_LOG_WAIT, GetLogs jid ''driver/stdout'']\<rparr>)"
  by (simp add: get_job_output_def seq_def lookup_def request_def sleep_def)

lemma wait_for_job_succeeded:
  "map_of job_status ''status'' = Some ''succeeded'' \<Longrightarrow>
     wait_for_job env jname job waited i job_status st = (Inr (), st)"
  by (simp add: wait_for_job.simps[of env jname job waited i job_status st])

text \<open>One round of the loop that reads a status other than \<open>failed\<close>.\<close>

lemma wait_for_job_round:
  assumes "map_of job ''id'' = Some jid"
      and "map_of job_status ''status'' \<noteq> Some ''succeeded''"
      and "job_run_status_reply env (Suc i) = Inr p"
      and "map_of p ''status'' = Some s"
      and "s \<noteq> ''failed''"
  shows "wait_for_job env jname job waited i job_status st =
           (if DEFAULT_CDE_JOB_TIMEOUT \<le> waited + DEFAULT_POLL_WAIT
            then (Inl (RPCTimeoutException DEFAULT_CDE_JOB_TIMEOUT),
                  st\<lparr>trace := trace st @ [Sleep DEFAULT_POLL_WAIT, GetJobRunStatus jid]\<rparr>)
            else wait_for_job env jname job (waited + DEFAULT_POLL_WAIT) (Suc i) p
                   (st\<lparr>trace := trace st @ [Sleep DEFAULT_POLL_WAIT, GetJobRunStatus jid]\<rparr>))"
  using assms
  by (simp add: wait_for_job.simps[of env jname job waited i job_status st]
        get_job_run_status_ok sleep_def)

lemma concat_replicate_round:
  "i < m \<Longrightarrow> concat (replicate (m - i) xs) = xs @ concat (replicate (m - Suc i) xs)"
proof -
  assume "i < m"
  then have "m - i = Suc (m - Suc i)" by simp
  then show ?thesis by (simp del: diff_Suc)
qed

lemma wait_for_job_times_out:
  assumes id: "map_of job ''id'' = Some jid"
      and running: "\<forall>j. \<exists>p s. job_run_status_reply env j = Inr p \<and> map_of p ''status'' = Some s
                      \<and> s \<noteq> ''succeeded'' \<and> s \<noteq> ''failed''"
  shows "n = 29 - i \<Longrightarrow> i < 30 \<Longrightarrow> waited = 30 * i \<Longrightarrow>
         map_of job_status ''status'' \<noteq> Some ''succeeded'' \<Longrightarrow>
         wait_for_job env jname job waited i job_status st =
           (Inl (RPCTimeoutException 900),
            st\<lparr>trace := trace st @ concat (replicate (30 - i) [Sleep 30, GetJobRunStatus jid])\<rparr>)"
proof (induction n arbitrary: i waited job_status st)
  case 0
  then have i: "i = 29" by simp
  from running obtain p s where p: "job_run_status_reply env (Suc i) = Inr p"
    "map_of p ''status'' = Some s" "s \<noteq> ''succeeded''" "s \<noteq> ''failed''"
    by blast
  show ?case
    by (subst wait_for_job_round[OF id "0.prems"(4) p(1,2,4)])
       (simp add: "0.prems"(3) i DEFAULT_POLL_WAIT_def DEFAULT_CDE_JOB_TIMEOUT_def)
next
  case (Suc n)
  then have i: "i < 29" by simp
  from running obtain p s where p: "job_run_status_reply env (Suc i) = Inr p"
    "map_of p ''status'' = Some s" "s \<noteq> ''succeeded''" "s \<noteq> ''failed''"
    by blast
  from p have ns: "map_of p ''status'' \<noteq> Some ''succeeded''" by simp
  have next_round: "wait_for_job env jname job (waited + 30) (Suc i) p st' =
      (Inl (RPCTimeoutException 900),
       st'\<lparr>trace := trace st' @ concat (replicate (30 - Suc i) [Sleep 30, GetJobRunStatus jid])\<rparr>)"
    for st'
    using Suc.IH[of "Suc i" "waited + 30" p st'] Suc.prems ns by simp
  have r: "concat (replicate (30 - i) [Sleep 30, GetJobRunStatus jid]) =
      [Sleep 30, GetJobRunStatus jid] @ concat (replicate (30 - Suc i) [Sleep 30, GetJobRunStatus jid])"
    using i by (intro concat_replicate_round) simp
  have "waited + 30 < 900" using Suc.prems(3) i by simp
  then show ?case
    by (simp add: wait_for_job_round[OF id Suc.prems(4) p(1,2,4)] next_round r
          DEFAULT_POLL_WAIT_def DEFAULT_CDE_JOB_TIMEOUT_def del: diff_Suc)
qed

lemma wait_for_job_reaches_success:
  assumes id: "map_of job ''id'' = Some jid"
      and statuses: "\<forall>j\<le>k. \<exists>p s. job_run_status_reply env j = Inr p \<and> map_of p ''status'' = Some s
                       \<and> (s = ''succeeded'') = (j = k) \<and> (0 < j \<longrightarrow> s \<noteq> ''failed'')"
      and k: "k < 30"
  shows "n = k - i \<Longrightarrow> i \<le> k \<Longrightarrow> waited = 30 * i \<Longrightarrow>
         (map_of job_status ''status'' = Some ''succeeded'') = (i = k) \<Longrightarrow>
         wait_for_job env jname job waited i job_status st =
           (Inr (),
            st\<lparr>trace := trace st @ concat (replicate (k - i) [Sleep 30, GetJobRunStatus jid])\<rparr>)"
proof (induction n arbitrary: i waited job_status st)
  case 0
  then have "i = k" by simp
  with "0.prems"(4) show ?case
    by (simp add: wait_for_job_succeeded)
next
  case (Suc n)
  then have i: "i < k" by simp
  with Suc.prems(4) have running: "map_of job_status ''status'' \<noteq> Some ''succeeded''" by simp
  from i have "Suc i \<le> k" by simp
  with statuses obtain p s where p: "job_run_status_reply env (Suc i) = Inr p"
    "map_of p ''status'' = Some s" "(s = ''succeeded'') = (Suc i = k)" "s \<noteq> ''failed''"
    by (metis zero_less_Suc)
  from p have ns: "(map_of p ''status'' = Some ''succeeded'') = (Suc i = k)" by auto
  have next_round: "wait_for_job env jname job (waited + 30) (Suc i) p st' =
      (Inr (),
       st'\<lparr>trace := trace st' @ concat (replicate (k - Suc i) [Sleep 30, GetJobRunStatus jid])\<rparr>)"
    for st'
    using Suc.IH[of "Suc i" "waited + 30" p st'] Suc.prems i ns by simp
  have r: "concat (replicate (k - i) [Sleep 30, GetJobRunStatus jid]) =
      [Sleep 30, GetJobRunStatus jid] @ concat (replicate (k - Suc i) [Sleep 30, GetJobRunStatus jid])"
    using i by (rule concat_replicate_round)
  have "waited + 30 < 900" using Suc.prems(3) i k by simp
  then show ?case
    by (simp add: wait_for_job_round[OF id running p(1,2,4)] next_round r
          DEFAULT_POLL_WAIT_def DEFAULT_CDE_JOB_TIMEOUT_def del: diff_Suc)
qed

text \<open>
  C7. When every call returns and no status read is \<open>succeeded\<close> or \<open>failed\<close>,
  \<open>execute\<close> does not poll forever: after the calls that set the job up and the first
  status request, which involve no sleep, it runs exactly 30 rounds of a sleep of
  \<open>DEFAULT_POLL_WAIT\<close> = 30 followed by a status request, which add up to
  \<open>DEFAULT_CDE_JOB_TIMEOUT\<close> = 900, and then raises the timeout exception carrying
  \<open>DEFAULT_CDE_JOB_TIMEOUT\<close>.
\<close>

theorem polling_times_out:
  assumes "(if length parameters > 0 then percent_format lib sql parameters else Inr sql) = Inr sql'"
      and "create_resource_reply env = Inr c1"
      and "\<forall>f. \<exists>c. upload_resource_reply env f = Inr c"
      and "submit_job_reply env = Inr c2"
      and "run_job_reply env = Inr job"
      and "map_of job ''id'' = Some jid"
      and "\<forall>j. \<exists>p s. job_run_status_reply env j = Inr p \<and> map_of p ''status'' = Some s
              \<and> s \<noteq> ''succeeded'' \<and> s \<noteq> ''failed''"
  shows "fst (execute lib env sql parameters st) = Inl (RPCTimeoutException DEFAULT_CDE_JOB_TIMEOUT)
         \<and> DEFAULT_CDE_JOB_TIMEOUT = 900 \<and> DEFAULT_POLL_WAIT = 30
         \<and> (\<exists>before. trace (snd (execute lib env sql parameters st)) =
                trace st @ before
                @ concat (replicate 30 [Sleep DEFAULT_POLL_WAIT, GetJobRunStatus jid])
              \<and> list_all (\<lambda>c. case c of Sleep n \<Rightarrow> False | _ \<Rightarrow> True) before)"
proof -
  let ?jn = "generate_job_name env"
  let ?sqlr = "generate_sql_resource env ?jn sql'"
  let ?pyr = "get_python_wrapper_resource env ?sqlr"
  let ?first_calls = "[CreateResource ?jn ''files'',
                 UploadResource ?jn (file_name ?sqlr) (file_obj ?sqlr),
                 UploadResource ?jn (file_name ?pyr) (file_obj ?pyr),
                 SubmitJob ?jn ?jn (file_name ?pyr) (file_name ?sqlr),
                 RunJob ?jn,
                 GetJobRunStatus jid]"
  from assms(3) obtain u1 where u1: "upload_resource_reply env (file_name ?sqlr) = Inr u1"
    by blast
  from assms(3) obtain u2 where u2: "upload_resource_reply env (file_name ?pyr) = Inr u2"
    by blast
  from assms(7) obtain p0 s0 where p0: "job_run_status_reply env 0 = Inr p0"
    "map_of p0 ''status'' = Some s0" "s0 \<noteq> ''succeeded''"
    by blast
  from p0 have ns: "map_of p0 ''status'' \<noteq> Some ''succeeded''" by simp
  have loop: "wait_for_job env ?jn job 0 0 p0 st' =
      (Inl (RPCTimeoutException 900),
       st'\<lparr>trace := trace st' @ concat (replicate 30 [Sleep 30, GetJobRunStatus jid])\<rparr>)"
    for st'
    using wait_for_job_times_out[OF assms(6,7), of 29 0 0 p0 ?jn st'] ns by simp
  have run: "execute lib env sql parameters st =
      (Inl (RPCTimeoutException 900),
       st\<lparr>trace := trace st @ ?first_calls @ concat (replicate 30 [Sleep 30, GetJobRunStatus jid])\<rparr>)"
    using assms(1,2,4,5,6) u1 u2 p0
    by (simp add: execute_def seq_def create_resource_def upload_resource_def submit_job_def
          run_job_def request_def get_job_run_status_ok lookup_def loop)
  have "trace (snd (execute lib env sql parameters st)) =
          trace st @ ?first_calls @ concat (replicate 30 [Sleep DEFAULT_POLL_WAIT, GetJobRunStatus jid])
        \<and> list_all (\<lambda>c. case c of Sleep n \<Rightarrow> False | _ \<Rightarrow> True) ?first_calls"
    by (simp add: run DEFAULT_POLL_WAIT_def)
  then have "\<exists>before. trace (snd (execute lib env sql parameters st)) =
                trace st @ before
                @ concat (replicate 30 [Sleep DEFAULT_POLL_WAIT, GetJobRunStatus jid])
              \<and> list_all (\<lambda>c. case c of Sleep n \<Rightarrow> False | _ \<Rightarrow> True) before"
    by blast
  then show ?thesis
    by (simp add: run DEFAULT_POLL_WAIT_def DEFAULT_CDE_JOB_TIMEOUT_def)
qed

theorem polling_times_out_witness:
  "fst (execute sample_lib (sample_remote [''running''] (Inr 204)) ''select 1'' []
          sample_session)
     = Inl (RPCTimeoutException 900)"
proof -
  let ?env = "sample_remote [''running''] (Inr 204)"
  have h1: "(if length ([]::pyobj list) > 0 then percent_format sample_lib ''select 1'' []
             else Inr ''select 1'') = Inr ''select 1''"
    by simp
  have h2: "create_resource_reply ?env = Inr 201" by (simp add: sample_remote_def)
  have h3: "\<forall>f. \<exists>c. upload_resource_reply ?env f = Inr c" by (simp add: sample_remote_def)
  have h4: "submit_job_reply ?env = Inr 201" by (simp add: sample_remote_def)
  have h5: "run_job_reply ?env = Inr [(''id'', ''7'')]" by (simp add: sample_remote_def)
  have h6: "map_of [(''id'', ''7'')] ''id'' = Some ''7''" by simp
  have h7: "\<forall>j. \<exists>p s. job_run_status_reply ?env j = Inr p \<and> map_of p ''status'' = Some s
              \<and> s \<noteq> ''succeeded'' \<and> s \<noteq> ''failed''"
    by (simp add: sample_remote_def)
  from polling_times_out[OF h1 h2 h3 h4 h5 h6 h7, of sample_session]
  show ?thesis by (simp add: DEFAULT_CDE_JOB_TIMEOUT_def)
qed

lemma execute_after_success:
  assumes "(if length parameters > 0 then percent_format lib sql parameters else Inr sql) = Inr sql'"
      and "create_resource_reply env = Inr c1"
      and "\<forall>f. \<exists>c. upload_resource_reply env f = Inr c"
      and "submit_job_reply env = Inr c2"
      and "run_job_reply env = Inr job"
      and "map_of job ''id'' = Some jid"
      and "k < 30"
      and "\<forall>j\<le>k. \<exists>p s. job_run_status_reply env j = Inr p \<and> map_of p ''status'' = Some s
              \<and> (s = ''succeeded'') = (j = k) \<and> (0 < j \<longrightarrow> s \<noteq> ''failed'')"
      and "logs_reply env = Inr logs"
  shows "execute lib env sql parameters st =
           seq (delete_job env (generate_job_name env))
             (\<lambda>_. seq (delete_resource env (generate_job_name env)) (\<lambda>_ st. (Inr (), st)))
             (snd (store_result
                (fst (parse_query_result (map strip (split_on (CHR 0x0A) logs))))
                (snd (parse_query_result (map strip (split_on (CHR 0x0A) logs))))
                (st\<lparr>trace := trace st
                   @ [CreateResource (generate_job_name env) ''files'',
                      UploadResource (generate_job_name env)
                        (file_name (generate_sql_resource env (generate_job_name env) sql'))
                        (file_obj (generate_sql_resource env (generate_job_name env) sql')),
                      UploadResource (generate_job_name env)
                        (file_name (get_python_wrapper_resource env
                           (generate_sql_resource env (generate_job_name env) sql')))
                        (file_obj (get_python_wrapper_resource env
                           (generate_sql_resource env (generate_job_name env) sql'))),
                      SubmitJob (generate_job_name env) (generate_job_name env)
                        (file_name (get_python_wrapper_resource env
                           (generate_sql_resource env (generate_job_name env) sql')))
                        (file_name (generate_sql_resource env (generate_job_name env) sql')),
                      RunJob (generate_job_name env),
                      GetJobRunStatus jid]
                   @ concat (replicate k [Sleep 30, GetJobRunStatus jid])
                   @ [Sleep 40, GetLogs jid ''driver/stdout'']\<rparr>)))"
proof -
  let ?jn = "generate_job_name env"
  let ?sqlr = "generate_sql_resource env ?jn sql'"
  let ?pyr = "get_python_wrapper_resource env ?sqlr"
  from assms(3) obtain u1 where u1: "upload_resource_reply env (file_name ?sqlr) = Inr u1"
    by blast
  from assms(3) obtain u2 where u2: "upload_resource_reply env (file_name ?pyr) = Inr u2"
    by blast
  from assms(8) obtain p0 s0 where p0: "job_run_status_reply env 0 = Inr p0"
    "map_of p0 ''status'' = Some s0" "(s0 = ''succeeded'') = (0 = k)"
    by blast
  from p0 have ns: "(map_of p0 ''status'' = Some ''succeeded'') = (0 = k)" by auto
  have loop: "wait_for_job env ?jn job 0 0 p0 st' =
      (Inr (), st'\<lparr>trace := trace st' @ concat (replicate k [Sleep 30, GetJobRunStatus jid])\<rparr>)"
    for st'
    using wait_for_job_reaches_success[OF assms(6,8,7), of k 0 0 p0 ?jn st'] ns by simp
  show ?thesis
    using assms(1,2,4,5,6,9) u1 u2 p0(1,2)
    by (simp add: execute_def seq_def create_resource_def upload_resource_def submit_job_def
          run_job_def request_def get_job_run_status_ok get_job_output_ok lookup_def loop
          store_result_def DEFAULT_LOG_WAIT_def)
qed

lemma wait_for_job_failed_round:
  assumes "map_of job ''id'' = Some jid"
      and "map_of job_status ''status'' \<noteq> Some ''succeeded''"
      and "job_run_status_reply env (Suc i) = Inr p"
      and "map_of p ''status'' = Some ''failed''"
      and "logs_reply env = Inr logs"
  shows "wait_for_job env jname job waited i job_status st =
           (Inl (DatabaseError p),
            st\<lparr>trace := trace st @ [Sleep DEFAULT_POLL_WAIT, GetJobRunStatus jid,
                                     Sleep DEFAULT_LOG_WAIT, GetLogs jid ''driver/stdout'']\<rparr>)"
  using assms
  by (simp add: wait_for_job.simps[of env jname job waited i job_status st]
        get_job_run_status_ok get_job_output_ok sleep_def)

lemma execute_job_failed:
  assumes "(if length parameters > 0 then percent_format lib sql parameters else Inr sql) = Inr sql'"
      and "create_resource_reply env = Inr c1"
      and "\<forall>f. \<exists>c. upload_resource_reply env f = Inr c"
      and "submit_job_reply env = Inr c2"
      and "run_job_reply env = Inr job"
      and "map_of job ''id'' = Some jid"
      and "job_run_status_reply env 0 = Inr p0"
      and "map_of p0 ''status'' = Some s0"
      and "s0 \<noteq> ''succeeded''"
      and "job_run_status_reply env (Suc 0) = Inr p1"
      and "map_of p1 ''status'' = Some ''failed''"
      and "logs_reply env = Inr logs"
  shows "execute lib env sql parameters st =
           (Inl (DatabaseError p1),
            st\<lparr>trace := trace st
               @ [CreateResource (generate_job_name env) ''files'',
                  UploadResource (generate_job_name env)
                    (file_name (generate_sql_resource env (generate_job_name env) sql'))
                    (file_obj (generate_sql_resource env (generate_job_name env) sql')),
                  UploadResource (generate_job_name env)
                    (file_name (get_python_wrapper_resource env
                       (generate_sql_resource env (generate_job_name env) sql')))
                    (file_obj (get_python_wrapper_resource env
                       (generate_sql_resource env (generate_job_name env) sql'))),
                  SubmitJob (generate_job_name env) (generate_job_name env)
                    (file_name (get_python_wrapper_resource env
                       (generate_sql_resource env (generate_job_name env) sql')))
                    (file_name (generate_sql_resource env (generate_job_name env) sql')),
                  RunJob (generate_job_name env),
                  GetJobRunStatus jid,
                  Sleep 30, GetJobRunStatus jid,
                  Sleep 40, GetLogs jid ''driver/stdout'']\<rparr>)"
proof -
  let ?jn = "generate_job_name env"
  let ?sqlr = "generate_sql_resource env ?jn sql'"
  let ?pyr = "get_python_wrapper_resource env ?sqlr"
  from assms(3) obtain u1 where u1: "upload_resource_reply env (file_name ?sqlr) = Inr u1"
    by blast
  from assms(3) obtain u2 where u2: "upload_resource_reply env (file_name ?pyr) = Inr u2"
    by blast
  from assms(8,9) have ns: "map_of p0 ''status'' \<noteq> Some ''succeeded''" by simp
  note loop = wait_for_job_failed_round[OF assms(6) ns assms(10,11,12)]
  show ?thesis
    using assms(1,2,4,5,6,7,8) u1 u2
    by (simp add: execute_def seq_def create_resource_def upload_resource_def submit_job_def
          run_job_def request_def get_job_run_status_ok lookup_def loop
          DEFAULT_POLL_WAIT_def DEFAULT_LOG_WAIT_def)
qed

text \<open>
  C1, as the specification states it, does not hold. With the status sequence
  \<open>running\<close>, \<open>failed\<close>, \<open>execute\<close> raises the database error and the calls it has made
  hold no deletion of the job and none of the resource namespace. With the status
  \<open>succeeded\<close> and the job deletion raising, \<open>execute\<close> raises that exception: the failed
  cleanup replaces the successful outcome.
\<close>

theorem cleanup_counterexample:
  "fst (execute sample_lib (sample_remote [''running'', ''failed''] (Inr 204))
          ''select 1'' [] sample_session)
     = Inl (DatabaseError [(''id'', ''7''), (''status'', ''failed'')])
   \<and> count_list
        (trace (snd (execute sample_lib (sample_remote [''running'', ''failed''] (Inr 204))
                       ''select 1'' [] sample_session)))
        (DeleteJob (generate_job_name (sample_remote [''running'', ''failed''] (Inr 204)))) = 0
   \<and> count_list
        (trace (snd (execute sample_lib (sample_remote [''running'', ''failed''] (Inr 204))
                       ''select 1'' [] sample_session)))
        (DeleteResource (generate_job_name (sample_remote [''running'', ''failed''] (Inr 204)))) = 0
   \<and> fst (execute sample_lib (sample_remote [''succeeded''] (Inl TransportError))
            ''select 1'' [] sample_session)
     = Inl TransportError"
proof -
  let ?failing = "sample_remote [''running'', ''failed''] (Inr 204)"
  let ?unreachable = "sample_remote [''succeeded''] (Inl TransportError)"
  have h1: "(if length ([]::pyobj list) > 0 then percent_format sample_lib ''select 1'' []
             else Inr ''select 1'') = Inr ''select 1''"
    by simp
  have h6: "map_of [(''id'', ''7'')] ''id'' = Some ''7''" by simp
  have f2: "create_resource_reply ?failing = Inr 201" by (simp add: sample_remote_def)
  have f3: "\<forall>f. \<exists>c. upload_resource_reply ?failing f = Inr c" by (simp add: sample_remote_def)
  have f4: "submit_job_reply ?failing = Inr 201" by (simp add: sample_remote_def)
  have f5: "run_job_reply ?failing = Inr [(''id'', ''7'')]" by (simp add: sample_remote_def)
  have f7: "job_run_status_reply ?failing 0 = Inr [(''id'', ''7''), (''status'', ''running'')]"
    by (simp add: sample_remote_def)
  have f8: "map_of [(''id'', ''7''), (''status'', ''running'')] ''status'' = Some ''running''"
    by simp
  have f9: "''running'' \<noteq> ''succeeded''" by simp
  have f10: "job_run_status_reply ?failing (Suc 0) = Inr [(''id'', ''7''), (''status'', ''failed'')]"
    by (simp add: sample_remote_def)
  have f11: "map_of [(''id'', ''7''), (''status'', ''failed'')] ''status'' = Some ''failed''"
    by simp
  have "\<exists>logs. logs_reply ?failing = Inr logs" by (simp add: sample_remote_def)
  then obtain logs where f12: "logs_reply ?failing = Inr logs" by blast
  note failed = execute_job_failed[OF h1 f2 f3 f4 f5 h6 f7 f8 f9 f10 f11 f12, of sample_session]
  have empty: "trace sample_session = []" by (simp add: sample_session_def)
  have no_cleanup:
    "fst (execute sample_lib ?failing ''select 1'' [] sample_session)
       = Inl (DatabaseError [(''id'', ''7''), (''status'', ''failed'')])
     \<and> count_list (trace (snd (execute sample_lib ?failing ''select 1'' [] sample_session)))
         (DeleteJob (generate_job_name ?failing)) = 0
     \<and> count_list (trace (snd (execute sample_lib ?failing ''select 1'' [] sample_session)))
         (DeleteResource (generate_job_name ?failing)) = 0"
    by (simp add: failed empty)
  have u2: "create_resource_reply ?unreachable = Inr 201" by (simp add: sample_remote_def)
  have u3: "\<forall>f. \<exists>c. upload_resource_reply ?unreachable f = Inr c" by (simp add: sample_remote_def)
  have u4: "submit_job_reply ?unreachable = Inr 201" by (simp add: sample_remote_def)
  have u5: "run_job_reply ?unreachable = Inr [(''id'', ''7'')]" by (simp add: sample_remote_def)
  have u7: "(0::nat) < 30" by simp
  have u8: "\<forall>j\<le>0. \<exists>p s. job_run_status_reply ?unreachable j = Inr p \<and> map_of p ''status'' = Some s
              \<and> (s = ''succeeded'') = (j = 0) \<and> (0 < j \<longrightarrow> s \<noteq> ''failed'')"
    by (simp add: sample_remote_def)
  have "\<exists>logs. logs_reply ?unreachable = Inr logs" by (simp add: sample_remote_def)
  then obtain logs' where u9: "logs_reply ?unreachable = Inr logs'" by blast
  have d: "delete_job_reply ?unreachable = Inl TransportError" by (simp add: sample_remote_def)
  have masked: "fst (execute sample_lib ?unreachable ''select 1'' [] sample_session)
                  = Inl TransportError"
    by (simp add: execute_after_success[OF h1 u2 u3 u4 u5 h6 u7 u8 u9, of sample_session]
          seq_def delete_job_def request_def d)
  from no_cleanup masked show ?thesis by blast
qed

text \<open>
  C1, amended. For every execution of \<open>execute\<close> in which all calls up to the fetch of
  the output return and the run is seen to have succeeded (at the status request \<open>k\<close>,
  before the timeout), the cleanup is attempted once, after the result has been stored:
  among the calls of the execution the deletion of the job occurs exactly once, as the
  last call but for the deletion of the resource namespace, which follows it exactly
  once when the job deletion returned and is not attempted when the job deletion
  raised. What a deletion answers is ignored, so an error response does not change the
  outcome; an exception raised by a deletion is the outcome of \<open>execute\<close>, with the
  rows and the schema already stored. Executions that end with a failed job or with
  the timeout are not covered.
\<close>

theorem cleanup_once_after_success:
  assumes "(if length parameters > 0 then percent_format lib sql parameters else Inr sql) = Inr sql'"
      and "create_resource_reply env = Inr c1"
      and "\<forall>f. \<exists>c. upload_resource_reply env f = Inr c"
      and "submit_job_reply env = Inr c2"
      and "run_job_reply env = Inr job"
      and "map_of job ''id'' = Some jid"
      and "k < 30"
      and "\<forall>j\<le>k. \<exists>p s. job_run_status_reply env j = Inr p \<and> map_of p ''status'' = Some s
              \<and> (s = ''succeeded'') = (j = k) \<and> (0 < j \<longrightarrow> s \<noteq> ''failed'')"
      and "logs_reply env = Inr logs"
  shows "fst (execute lib env sql parameters st) =
           (case delete_job_reply env of
              Inl e \<Rightarrow> Inl e
            | Inr d \<Rightarrow> (case delete_resource_reply env of Inl e \<Rightarrow> Inl e | Inr d' \<Rightarrow> Inr ()))
         \<and> (\<exists>before. trace (snd (execute lib env sql parameters st)) =
                trace st @ before @ [DeleteJob (generate_job_name env)]
                @ (case delete_job_reply env of
                     Inl e \<Rightarrow> []
                   | Inr d \<Rightarrow> [DeleteResource (generate_job_name env)])
              \<and> list_all (\<lambda>c. case c of DeleteJob n \<Rightarrow> False | DeleteResource n \<Rightarrow> False | _ \<Rightarrow> True)
                  before)
         \<and> cur_rows (snd (execute lib env sql parameters st)) = ListAt (next_addr st)
         \<and> heap (snd (execute lib env sql parameters st)) (next_addr st) =
             snd (parse_query_result (map strip (split_on (CHR 0x0A) logs)))
         \<and> cur_schema (snd (execute lib env sql parameters st)) =
             Some (fst (parse_query_result (map strip (split_on (CHR 0x0A) logs))))"
proof -
  let ?jn = "generate_job_name env"
  let ?sqlr = "generate_sql_resource env ?jn sql'"
  let ?pyr = "get_python_wrapper_resource env ?sqlr"
  let ?before = "[CreateResource ?jn ''files'',
                  UploadResource ?jn (file_name ?sqlr) (file_obj ?sqlr),
                  UploadResource ?jn (file_name ?pyr) (file_obj ?pyr),
                  SubmitJob ?jn ?jn (file_name ?pyr) (file_name ?sqlr),
                  RunJob ?jn,
                  GetJobRunStatus jid]
                 @ concat (replicate k [Sleep 30, GetJobRunStatus jid])
                 @ [Sleep 40, GetLogs jid ''driver/stdout'']"
  note run = execute_after_success[OF assms, of st]
  have clean: "list_all (\<lambda>c. case c of DeleteJob n \<Rightarrow> False | DeleteResource n \<Rightarrow> False | _ \<Rightarrow> True)
                 ?before"
    by (simp add: list_all_iff)
  have calls: "trace (snd (execute lib env sql parameters st)) =
                 trace st @ ?before @ [DeleteJob ?jn]
                 @ (case delete_job_reply env of Inl e \<Rightarrow> [] | Inr d \<Rightarrow> [DeleteResource ?jn])"
    by (simp add: run seq_def delete_job_def delete_resource_def request_def store_result_def
          split: sum.splits)
  have outcome: "fst (execute lib env sql parameters st) =
           (case delete_job_reply env of
              Inl e \<Rightarrow> Inl e
            | Inr d \<Rightarrow> (case delete_resource_reply env of Inl e \<Rightarrow> Inl e | Inr d' \<Rightarrow> Inr ()))"
    by (simp add: run seq_def delete_job_def delete_resource_def request_def store_result_def
          split: sum.splits)
  have stored: "cur_rows (snd (execute lib env sql parameters st)) = ListAt (next_addr st)
         \<and> heap (snd (execute lib env sql parameters st)) (next_addr st) =
             snd (parse_query_result (map strip (split_on (CHR 0x0A) logs)))
         \<and> cur_schema (snd (execute lib env sql parameters st)) =
             Some (fst (parse_query_result (map strip (split_on (CHR 0x0A) logs))))"
    by (simp add: run seq_def delete_job_def delete_resource_def request_def store_result_def
          split: sum.splits)
  from calls clean have "\<exists>before. trace (snd (execute lib env sql parameters st)) =
                trace st @ before @ [DeleteJob (generate_job_name env)]
                @ (case delete_job_reply env of
                     Inl e \<Rightarrow> []
                   | Inr d \<Rightarrow> [DeleteResource (generate_job_name env)])
              \<and> list_all (\<lambda>c. case c of DeleteJob n \<Rightarrow> False | DeleteResource n \<Rightarrow> False | _ \<Rightarrow> True)
                  before"
    by blast
  with outcome stored show ?thesis by blast
qed

theorem cleanup_once_after_success_witness:
  "fst (execute sample_lib (sample_remote [''running'', ''running'', ''succeeded''] (Inr 204))
          ''select 1'' [] sample_session) = Inr ()
   \<and> cur_rows (snd (execute sample_lib
          (sample_remote [''running'', ''running'', ''succeeded''] (Inr 204))
          ''select 1'' [] sample_session)) = ListAt 0
   \<and> count_list
        (trace (snd (execute sample_lib
           (sample_remote [''running'', ''running'', ''succeeded''] (Inr 204))
           ''select 1'' [] sample_session)))
        (DeleteJob (generate_job_name
           (sample_remote [''running'', ''running'', ''succeeded''] (Inr 204)))) = 1"
proof -
  let ?env = "sample_remote [''running'', ''running'', ''succeeded''] (Inr 204)"
  have h1: "(if length ([]::pyobj list) > 0 then percent_format sample_lib ''select 1'' []
             else Inr ''select 1'') = Inr ''select 1''"
    by simp
  have h2: "create_resource_reply ?env = Inr 201" by (simp add: sample_remote_def)
  have h3: "\<forall>f. \<exists>c. upload_resource_reply ?env f = Inr c" by (simp add: sample_remote_def)
  have h4: "submit_job_reply ?env = Inr 201" by (simp add: sample_remote_def)
  have h5: "run_job_reply ?env = Inr [(''id'', ''7'')]" by (simp add: sample_remote_def)
  have h6: "map_of [(''id'', ''7'')] ''id'' = Some ''7''" by simp
  have h7: "(2::nat) < 30" by simp
  have h8: "\<forall>j\<le>2. \<exists>p s. job_run_status_reply ?env j = Inr p \<and> map_of p ''status'' = Some s
              \<and> (s = ''succeeded'') = (j = 2) \<and> (0 < j \<longrightarrow> s \<noteq> ''failed'')"
  proof (intro allI impI)
    fix j :: nat
    assume "j \<le> 2"
    then consider "j = 0" | "j = 1" | "j = 2" by linarith
    then show "\<exists>p s. job_run_status_reply ?env j = Inr p \<and> map_of p ''status'' = Some s
              \<and> (s = ''succeeded'') = (j = 2) \<and> (0 < j \<longrightarrow> s \<noteq> ''failed'')"
      by cases (simp_all add: sample_remote_def)
  qed
  have "\<exists>logs. logs_reply ?env = Inr logs" by (simp add: sample_remote_def)
  then obtain logs where h9: "logs_reply ?env = Inr logs" by blast
  have d: "delete_job_reply ?env = Inr 204" "delete_resource_reply ?env = Inr 204"
    by (simp_all add: sample_remote_def)
  from cleanup_once_after_success[OF h1 h2 h3 h4 h5 h6 h7 h8 h9, of sample_session]
  obtain before where r: "fst (execute sample_lib ?env ''select 1'' [] sample_session) = Inr ()"
    "cur_rows (snd (execute sample_lib ?env ''select 1'' [] sample_session)) = ListAt 0"
    "trace (snd (execute sample_lib ?env ''select 1'' [] sample_session)) =
       before @ [DeleteJob (generate_job_name ?env), DeleteResource (generate_job_name ?env)]"
    "list_all (\<lambda>c. case c of DeleteJob n \<Rightarrow> False | DeleteResource n \<Rightarrow> False | _ \<Rightarrow> True) before"
    by (auto simp: d sample_session_def)
  from r(4) have "count_list before (DeleteJob (generate_job_name ?env)) = 0"
    by (induction before) (auto split: call.splits)
  with r(1,2,3) show ?thesis by simp
qed

end
